theory Spec2Isabelle
  imports Complex_Main "HOL-Library.Log_Nat"
begin

section \<open>The flight modes of KIMCHI\<close>

text \<open>
  A shallow embedding of \<^verbatim>\<open>src/app/scripts/kimchi.flight.js\<close> and of the parts of
  \<^verbatim>\<open>src/app/scripts/kimchi.space.Body.js\<close> it calls. The module keeps its state in closure
  variables and in the three \<^verbatim>\<open>Mode\<close> objects; here that state is one record, passed in and
  returned. Calls into the DOM, the renderer, the clock and the other collaborators are
  appended to a trace, in the order in which the source makes them.
\<close>

subsection \<open>Numbers\<close>

text \<open>
  A JavaScript number that may be infinite or not a number. Finite doubles are idealised as
  reals, except in the pan phase, where rounding is what the code is about and the double
  addition is written out (see \<open>fl_add\<close>). Negative zero is not modelled.
\<close>

datatype number = Num real | PosInf | NegInf | NaN

fun js_mul :: "number \<Rightarrow> number \<Rightarrow> number" where
  "js_mul (Num a) (Num b) = Num (a * b)"
| "js_mul NaN _ = NaN"
| "js_mul _ NaN = NaN"
| "js_mul (Num a) PosInf = (if a = 0 then NaN else if 0 < a then PosInf else NegInf)"
| "js_mul (Num a) NegInf = (if a = 0 then NaN else if 0 < a then NegInf else PosInf)"
| "js_mul PosInf (Num b) = (if b = 0 then NaN else if 0 < b then PosInf else NegInf)"
| "js_mul NegInf (Num b) = (if b = 0 then NaN else if 0 < b then NegInf else PosInf)"
| "js_mul PosInf PosInf = PosInf"
| "js_mul NegInf NegInf = PosInf"
| "js_mul PosInf NegInf = NegInf"
| "js_mul NegInf PosInf = NegInf"

fun js_div :: "number \<Rightarrow> number \<Rightarrow> number" where
  "js_div (Num a) (Num b) =
     (if b = 0 then (if a = 0 then NaN else if 0 < a then PosInf else NegInf)
      else Num (a / b))"
| "js_div NaN _ = NaN"
| "js_div _ NaN = NaN"
| "js_div (Num a) PosInf = Num 0"
| "js_div (Num a) NegInf = Num 0"
| "js_div PosInf (Num b) = (if 0 \<le> b then PosInf else NegInf)"
| "js_div NegInf (Num b) = (if 0 \<le> b then NegInf else PosInf)"
| "js_div PosInf PosInf = NaN"
| "js_div NegInf NegInf = NaN"
| "js_div PosInf NegInf = NaN"
| "js_div NegInf PosInf = NaN"

fun js_neg :: "number \<Rightarrow> number" where
  "js_neg (Num a) = Num (- a)"
| "js_neg PosInf = NegInf"
| "js_neg NegInf = PosInf"
| "js_neg NaN = NaN"

subsection \<open>Vectors, objects and the camera\<close>

type_synonym vec3 = "real \<times> real \<times> real"

type_synonym quat = "real \<times> real \<times> real \<times> real"

fun vec_sub :: "vec3 \<Rightarrow> vec3 \<Rightarrow> vec3" where
  "vec_sub (x1, y1, z1) (x2, y2, z2) = (x1 - x2, y1 - y2, z1 - z2)"

fun vec_length :: "vec3 \<Rightarrow> real" where
  "vec_length (x, y, z) = sqrt (x * x + y * y + z * z)"

record object3D =
  obj_name :: string
  obj_position :: vec3
  obj_scale_x :: real

record camera =
  cam_position :: vec3
  cam_quaternion :: quat
  cam_up :: vec3

subsection \<open>Modes, events and the state of the module\<close>

text \<open>
  \<^verbatim>\<open>flight.modes\<close> is an object with the three keys \<^verbatim>\<open>free\<close>, \<^verbatim>\<open>auto\<close> and \<^verbatim>\<open>menu\<close>, assigned
  once when the module is loaded. \<open>flight_modes\<close> is the lookup \<^verbatim>\<open>flight.modes[name]\<close>:
  \<open>None\<close> stands for a value that is not one of the three modes.
\<close>

datatype mode_key = Free | Auto | Menu

definition flight_modes :: "string \<Rightarrow> mode_key option" where
  "flight_modes name =
     (if name = ''free'' then Some Free
      else if name = ''auto'' then Some Auto
      else if name = ''menu'' then Some Menu
      else None)"

fun key_name :: "mode_key \<Rightarrow> string" where
  "key_name Free = ''free''"
| "key_name Auto = ''auto''"
| "key_name Menu = ''menu''"

record Mode =
  mode_name :: string
  enabled :: bool
  speed :: number

text \<open>\<^verbatim>\<open>new Mode(name)\<close>, with the prototype's \<^verbatim>\<open>enabled = false\<close> and \<^verbatim>\<open>speed = 0\<close>.\<close>

definition Mode_new :: "string \<Rightarrow> Mode" where
  "Mode_new name = \<lparr>mode_name = name, enabled = False, speed = Num 0\<rparr>"

datatype error = TypeError | NotFound

text \<open>What an animation frame returns: \<^verbatim>\<open>false\<close> stops the loop, \<^verbatim>\<open>undefined\<close> does not.\<close>

datatype signal = Continue | Stop

datatype event =
    EnableCalled mode_key
  | DisableCalled mode_key
  | RendererAnimate mode_key
  | ConsoleLog string
  | HudShow
  | HudHide
  | ControlsEnable
  | ControlsDisable
  | DocumentOnKeydown mode_key
  | DocumentOffKeydown mode_key
  | NoticeSet string
  | NoticeClear
  | ClockStop
  | ClockStart
  | PanelUpdate
  | OverlayShow
  | OverlayHide
  | TimeIncrementThenTranslateBodies real
  | RotateBodies real
  | MoveBodyChildren "real option"
  | HudDistanceFromSun real
  | HudSpeed number
  | HudTime

subsection \<open>Bodies (\<^verbatim>\<open>kimchi.space.Body.js\<close>)\<close>

text \<open>
  The options of the constructor that the flight module depends on. A key that is absent is
  \<open>None\<close>, and the prototype's default applies. \<^verbatim>\<open>_.assign(this, options)\<close> copies every key
  of the options onto the Body, so a \<^verbatim>\<open>mesh\<close> is present on a Body only when the options
  supply one: the constructor itself stores its mesh under \<^verbatim>\<open>object3Ds.main\<close>.
\<close>

record options =
  opt_name :: "string option"
  opt_radiusInKm :: "real option"
  opt_collideable :: "bool option"
  opt_mesh :: "object3D option"

record Body =
  body_name :: string
  radiusInKm :: real
  collideable :: bool
  radius :: real
  object3Ds_main :: object3D
  mesh :: "object3D option"

text \<open>
  The constructor. \<^verbatim>\<open>KIMCHI.constants.kmPerAu\<close> is defined in another module and is a
  parameter. A new \<^verbatim>\<open>THREE.Mesh\<close> sits at the origin with scale 1.
\<close>

definition Body_new :: "real \<Rightarrow> options \<Rightarrow> Body" where
  "Body_new kmPerAu opts =
     (let name = (case opt_name opts of None \<Rightarrow> [] | Some n \<Rightarrow> n);
          km = (case opt_radiusInKm opts of None \<Rightarrow> 0 | Some r \<Rightarrow> r)
      in \<lparr>body_name = name,
          radiusInKm = km,
          collideable = (case opt_collideable opts of None \<Rightarrow> True | Some c \<Rightarrow> c),
          radius = km / kmPerAu,
          object3Ds_main = \<lparr>obj_name = name, obj_position = (0, 0, 0), obj_scale_x = 1\<rparr>,
          mesh = opt_mesh opts\<rparr>)"

definition getScaledRadius :: "Body \<Rightarrow> real" where
  "getScaledRadius b = radius b * obj_scale_x (object3Ds_main b)"

definition getSurfaceCollisionDistance :: "Body \<Rightarrow> real" where
  "getSurfaceCollisionDistance b = getScaledRadius b"

definition getCollisionDistance :: "Body \<Rightarrow> real" where
  "getCollisionDistance b = getScaledRadius b + getSurfaceCollisionDistance b"

text \<open>
  Modelled from the spec: \<^verbatim>\<open>THREE.Object3D.getDistance\<close> is an extension that the repository
  defines in another module; the spec calls it the Euclidean distance between the
  positions of the two objects.
\<close>

definition Object3D_getDistance :: "vec3 \<Rightarrow> vec3 \<Rightarrow> real" where
  "Object3D_getDistance p q = vec_length (vec_sub p q)"

definition getDistance :: "Body \<Rightarrow> camera \<Rightarrow> real" where
  "getDistance b cam = Object3D_getDistance (obj_position (object3Ds_main b)) (cam_position cam)"

definition getSurfaceDistance :: "Body \<Rightarrow> camera \<Rightarrow> real" where
  "getSurfaceDistance b cam =
     Object3D_getDistance (obj_position (object3Ds_main b)) (cam_position cam) - getScaledRadius b"

definition isColliding :: "Body \<Rightarrow> camera \<Rightarrow> bool" where
  "isColliding b cam \<longleftrightarrow> getDistance b cam < getCollisionDistance b"

subsection \<open>The state\<close>

text \<open>
  The function that \<^verbatim>\<open>flight.modes.auto.animationFrame\<close> currently is: the prototype's empty
  function, the closure installed by \<^verbatim>\<open>panTo(body)\<close>, or the one installed by
  \<^verbatim>\<open>translateTo(body)\<close>. No function of the module changes a Body, so the closure's
  reference to its Body is the Body's value.
\<close>

datatype auto_frame = FramePrototype | FramePanTo Body | FrameTranslateTo Body

record world =
  currentMode :: string
  modes :: "mode_key \<Rightarrow> Mode"
  auto_animationFrame :: auto_frame
  initialQuaternion :: quat
  targetQuaternion :: quat
  pan_t :: real
  the_camera :: camera
  bodies :: "Body list"
  localTranslationVector :: vec3
  config_time_on :: bool
  config_rotate_bodies :: bool
  config_controls_z_speed :: real
  config_controls_strafe_speed :: real
  trace :: "event list"

text \<open>
  The module as loaded: \<^verbatim>\<open>currentMode = ''\<close>, three fresh modes, nothing traced. The camera,
  the bodies, the controls and the configuration belong to other modules and are given.
  \<^verbatim>\<open>initialQuaternion\<close> and \<^verbatim>\<open>t\<close> are \<^verbatim>\<open>undefined\<close> until \<^verbatim>\<open>panTo\<close> assigns them, and
  nothing reads them before; they start here with the identity and 0.
\<close>

definition flight_init ::
  "camera \<Rightarrow> Body list \<Rightarrow> vec3 \<Rightarrow> bool \<Rightarrow> bool \<Rightarrow> real \<Rightarrow> real \<Rightarrow> world" where
  "flight_init cam bs tv time_on rotate_on z_speed strafe_speed =
     \<lparr>currentMode = [],
      modes = (\<lambda>k. Mode_new (key_name k)),
      auto_animationFrame = FramePrototype,
      initialQuaternion = (0, 0, 0, 1),
      targetQuaternion = (0, 0, 0, 1),
      pan_t = 0,
      the_camera = cam,
      bodies = bs,
      localTranslationVector = tv,
      config_time_on = time_on,
      config_rotate_bodies = rotate_on,
      config_controls_z_speed = z_speed,
      config_controls_strafe_speed = strafe_speed,
      trace = []\<rparr>"

definition emit :: "event \<Rightarrow> world \<Rightarrow> world" where
  "emit e w = w\<lparr>trace := trace w @ [e]\<rparr>"

definition set_enabled :: "mode_key \<Rightarrow> bool \<Rightarrow> world \<Rightarrow> world" where
  "set_enabled k b w = w\<lparr>modes := (modes w)(k := (modes w k)\<lparr>enabled := b\<rparr>)\<rparr>"

definition set_speed :: "mode_key \<Rightarrow> number \<Rightarrow> world \<Rightarrow> world" where
  "set_speed k s w = w\<lparr>modes := (modes w)(k := (modes w k)\<lparr>speed := s\<rparr>)\<rparr>"

subsection \<open>\<^verbatim>\<open>Mode.prototype\<close> and the three modes' own \<^verbatim>\<open>enable\<close> and \<^verbatim>\<open>disable\<close>\<close>

text \<open>
  \<^verbatim>\<open>animate\<close> hands a callback to \<^verbatim>\<open>KIMCHI.renderer.animate\<close>; the renderer calls it later,
  once per frame (\<open>animate_callback\<close> below).
\<close>

definition Mode_prototype_animate :: "mode_key \<Rightarrow> world \<Rightarrow> world" where
  "Mode_prototype_animate k w = emit (RendererAnimate k) w"

definition Mode_prototype_enable :: "mode_key \<Rightarrow> world \<Rightarrow> world" where
  "Mode_prototype_enable k w = Mode_prototype_animate k (set_enabled k True w)"

definition Mode_prototype_disable :: "mode_key \<Rightarrow> world \<Rightarrow> world" where
  "Mode_prototype_disable k w = set_enabled k False w"

text \<open>
  \<^verbatim>\<open>flight.modes[k].enable()\<close> and \<^verbatim>\<open>flight.modes[k].disable()\<close>: each mode overrides both and
  calls the prototype's first. \<open>EnableCalled\<close> and \<open>DisableCalled\<close> record the call itself.
\<close>

fun mode_enable :: "mode_key \<Rightarrow> world \<Rightarrow> world" where
  "mode_enable Free w =
     emit ControlsEnable (emit HudShow
       (Mode_prototype_enable Free (emit (EnableCalled Free) w)))"
| "mode_enable Auto w =
     emit (DocumentOnKeydown Auto)
       (Mode_prototype_enable Auto (emit (EnableCalled Auto) w))"
| "mode_enable Menu w =
     emit (DocumentOnKeydown Menu) (emit OverlayShow (emit PanelUpdate (emit ClockStop
       (Mode_prototype_enable Menu (emit (EnableCalled Menu) w)))))"

fun mode_disable :: "mode_key \<Rightarrow> world \<Rightarrow> world" where
  "mode_disable Free w =
     emit HudHide (emit ControlsDisable
       (Mode_prototype_disable Free (emit (DisableCalled Free) w)))"
| "mode_disable Auto w =
     emit (DocumentOffKeydown Auto) (emit NoticeClear
       (Mode_prototype_disable Auto (emit (DisableCalled Auto) w)))"
| "mode_disable Menu w =
     emit (DocumentOffKeydown Menu) (emit ClockStart (emit OverlayHide
       (Mode_prototype_disable Menu (emit (DisableCalled Menu) w))))"

text \<open>
  \<^verbatim>\<open>Mode.prototype.toggle(enable)\<close>. The argument is \<open>Some b\<close> for a boolean and \<open>None\<close> for
  anything else, an omitted argument included.
\<close>

definition Mode_prototype_toggle :: "mode_key \<Rightarrow> bool option \<Rightarrow> world \<Rightarrow> world" where
  "Mode_prototype_toggle k enable w =
     (case enable of
        Some b \<Rightarrow> (if b then mode_enable k w else mode_disable k w)
      | None \<Rightarrow> (if enabled (modes w k) then mode_enable k w else mode_disable k w))"

subsection \<open>\<^verbatim>\<open>flight.getMode\<close> and \<^verbatim>\<open>flight.setMode\<close>\<close>

definition flight_getMode :: "world \<Rightarrow> string" where
  "flight_getMode w = currentMode w"

text \<open>
  \<^verbatim>\<open>flight.setMode(name)\<close>. The result is the exception thrown, if any, and the state the call
  leaves behind. \<^verbatim>\<open>flight.modes[name].enable()\<close> throws a \<^verbatim>\<open>TypeError\<close> when \<^verbatim>\<open>name\<close> is not
  one of the three modes: the lookup yields \<^verbatim>\<open>undefined\<close>, or for a key inherited from
  \<^verbatim>\<open>Object.prototype\<close> a value that has no \<^verbatim>\<open>enable\<close>. By then the previous mode has been
  disabled.
\<close>

definition flight_setMode :: "string \<Rightarrow> world \<Rightarrow> error option \<times> world" where
  "flight_setMode name w =
     (let prevName = currentMode w in
      if prevName = name then (None, w)
      else
        let w1 = (case flight_modes prevName of
                    Some p \<Rightarrow> mode_disable p w
                  | None \<Rightarrow> w)
        in (case flight_modes name of
              None \<Rightarrow> (Some TypeError, w1)
            | Some k \<Rightarrow>
                (None,
                 emit (ConsoleLog (''flight mode changed from '' @ prevName @ '' to '' @ name))
                   ((mode_enable k w1)\<lparr>currentMode := name\<rparr>))))"

text \<open>
  A sequence of calls, each from its own event handler: a call that throws ends itself only,
  and the next call finds the state it left.
\<close>

fun setModes :: "string list \<Rightarrow> world \<Rightarrow> world" where
  "setModes [] w = w"
| "setModes (name # names) w = setModes names (snd (flight_setMode name w))"

definition enabled_modes :: "world \<Rightarrow> mode_key list" where
  "enabled_modes w = filter (\<lambda>k. enabled (modes w k)) [Free, Auto, Menu]"

subsection \<open>The space module\<close>

text \<open>
  Modelled from the spec: \<^verbatim>\<open>KIMCHI.space.getBody\<close> is defined in another module. The spec
  has it return the Body of the given name and fail with NotFound when there is none; the
  bodies are kept in insertion order.
\<close>

fun getBody :: "Body list \<Rightarrow> string \<Rightarrow> error + Body" where
  "getBody [] name = Inl NotFound"
| "getBody (b # bs) name = (if body_name b = name then Inr b else getBody bs name)"

text \<open>
  Modelled from the spec: \<^verbatim>\<open>KIMCHI.space.getCollideableBodies\<close>, defined in another module, is
  the subset of the bodies whose \<^verbatim>\<open>collideable\<close> is true.
\<close>

definition getCollideableBodies :: "Body list \<Rightarrow> Body list" where
  "getCollideableBodies bs = filter collideable bs"

text \<open>
  Modelled from the spec: \<^verbatim>\<open>KIMCHI.space.getCollideableObject3Ds\<close>, defined in another module,
  is one render object for each collideable Body.
\<close>

definition getCollideableObject3Ds :: "Body list \<Rightarrow> object3D list" where
  "getCollideableObject3Ds bs = map object3Ds_main (getCollideableBodies bs)"

text \<open>
  Modelled from the spec: \<^verbatim>\<open>KIMCHI.space.getClosestDistance\<close>, defined in another module, is
  the minimum Euclidean distance from the reference point, here the camera, to the position
  of any of the given bodies, and positive infinity, the sentinel the spec names, when no
  body is given.
\<close>

definition getClosestDistance :: "Body list \<Rightarrow> camera \<Rightarrow> number" where
  "getClosestDistance bs cam =
     (if bs = [] then PosInf else Num (Min (set (map (\<lambda>b. getDistance b cam) bs))))"

subsection \<open>\<^verbatim>\<open>flight.getTranslationSpeedMultiplier\<close> and \<^verbatim>\<open>flight.getSpeed\<close>\<close>

text \<open>The argument is \<open>None\<close> when \<^verbatim>\<open>bodies\<close> is \<^verbatim>\<open>undefined\<close>.\<close>

definition flight_getTranslationSpeedMultiplier :: "Body list option \<Rightarrow> world \<Rightarrow> number" where
  "flight_getTranslationSpeedMultiplier arg w =
     (let bs = (case arg of None \<Rightarrow> getCollideableBodies (bodies w) | Some given \<Rightarrow> given)
      in getClosestDistance bs (the_camera w))"

text \<open>\<^verbatim>\<open>flight.modes[currentMode].speed\<close> throws when \<^verbatim>\<open>currentMode\<close> names no mode.\<close>

definition flight_getSpeed :: "world \<Rightarrow> error + number" where
  "flight_getSpeed w =
     (case flight_modes (currentMode w) of
        None \<Rightarrow> Inl TypeError
      | Some k \<Rightarrow> Inr (speed (modes w k)))"

subsection \<open>The 3D engine and the controls\<close>

text \<open>
  One entry of the result of \<^verbatim>\<open>raycaster.intersectObjects\<close>, and the functions of three.js and
  of \<^verbatim>\<open>KIMCHI.controls\<close> that the module calls. They are parameters of the model:
  \<open>lookAt_quaternion eye target up\<close> is \<^verbatim>\<open>Matrix4.lookAt\<close> followed by
  \<^verbatim>\<open>Quaternion.setFromRotationMatrix\<close>, and \<open>intersectObjects origin direction objects\<close> is
  \<^verbatim>\<open>raycaster.set\<close> followed by \<^verbatim>\<open>raycaster.intersectObjects\<close>.
\<close>

record intersect =
  int_object :: object3D
  int_distance :: real

record env =
  localToWorld :: "camera \<Rightarrow> vec3 \<Rightarrow> vec3"
  intersectObjects :: "vec3 \<Rightarrow> vec3 \<Rightarrow> object3D list \<Rightarrow> intersect list"
  slerp :: "quat \<Rightarrow> quat \<Rightarrow> real \<Rightarrow> quat"
  lookAt_quaternion :: "vec3 \<Rightarrow> vec3 \<Rightarrow> vec3 \<Rightarrow> quat"
  translateZ :: "number \<Rightarrow> camera \<Rightarrow> camera"
  moveCamera :: "real \<Rightarrow> number \<Rightarrow> vec3 \<Rightarrow> camera \<Rightarrow> camera"

subsection \<open>The HUD (\<^verbatim>\<open>KIMCHI.ui.hud.update\<close>)\<close>

text \<open>
  Three texts are written, in this order; the second reads \<^verbatim>\<open>flight.getSpeed()\<close>, which may
  throw after the first text has been written.
\<close>

definition hud_update :: "real \<Rightarrow> world \<Rightarrow> error option \<times> world" where
  "hud_update delta w =
     (let w1 = emit (HudDistanceFromSun (vec_length (cam_position (the_camera w)))) w
      in case flight_getSpeed w1 of
           Inl e \<Rightarrow> (Some e, w1)
         | Inr s \<Rightarrow> (None, emit HudTime (emit (HudSpeed s) w1)))"

subsection \<open>Free flight\<close>

text \<open>
  The loop \<^verbatim>\<open>_.each(intersects, ...)\<close> of \<^verbatim>\<open>colliding\<close>: it stops at the first intersection
  closer than its Body's collision distance.
\<close>

fun colliding_each :: "Body list \<Rightarrow> intersect list \<Rightarrow> error + bool" where
  "colliding_each bs [] = Inr False"
| "colliding_each bs (i # rest) =
     (case getBody bs (obj_name (int_object i)) of
        Inl e \<Rightarrow> Inl e
      | Inr body \<Rightarrow>
          if int_distance i < getCollisionDistance body then Inr True
          else colliding_each bs rest)"

definition raycast :: "env \<Rightarrow> world \<Rightarrow> intersect list" where
  "raycast env w =
     intersectObjects env
       (cam_position (the_camera w))
       (vec_sub (localToWorld env (the_camera w) (localTranslationVector w))
                (cam_position (the_camera w)))
       (getCollideableObject3Ds (bodies w))"

definition colliding :: "env \<Rightarrow> world \<Rightarrow> error + bool" where
  "colliding env w =
     (if vec_length (localTranslationVector w) = 0 then Inr False
      else
        let intersects = raycast env w
        in if length intersects = 0 then Inr False
           else colliding_each (bodies w) intersects)"

text \<open>The private \<^verbatim>\<open>getSpeed(delta)\<close> of free flight.\<close>

definition free_getSpeed :: "real \<Rightarrow> world \<Rightarrow> number" where
  "free_getSpeed delta w =
     (case localTranslationVector w of
        (x, y, z) \<Rightarrow>
          js_div
            (js_mul
               (Num (vec_length (x * config_controls_strafe_speed w,
                                 y * config_controls_strafe_speed w,
                                 z * config_controls_z_speed w)))
               (flight_getTranslationSpeedMultiplier None w))
            (Num delta))"

text \<open>
  \<^verbatim>\<open>flight.modes.free.animationFrame(delta)\<close>. The result is what the frame returns, or the
  exception it throws, and the state it leaves.
\<close>

definition free_animationFrame :: "env \<Rightarrow> real \<Rightarrow> world \<Rightarrow> (error + signal) \<times> world" where
  "free_animationFrame env delta w =
     (case colliding env w of
        Inl e \<Rightarrow> (Inl e, w)
      | Inr c \<Rightarrow>
          let w1 = (if \<not> c then
                      let moved = w\<lparr>the_camera :=
                                    moveCamera env delta
                                      (flight_getTranslationSpeedMultiplier None w)
                                      (localTranslationVector w) (the_camera w)\<rparr>
                      in set_speed Free (free_getSpeed delta moved) moved
                    else w);
              w2 = (if config_time_on w1
                    then emit (TimeIncrementThenTranslateBodies delta) w1 else w1);
              w3 = (if config_rotate_bodies w2 then emit (RotateBodies delta) w2 else w2);
              w4 = emit (MoveBodyChildren (Some delta)) w3
          in case hud_update delta w4 of
               (Some e, w5) \<Rightarrow> (Inl e, w5)
             | (None, w5) \<Rightarrow> (Inr Continue, w5))"

subsection \<open>Double precision\<close>

text \<open>
  The interpolation parameter of the pan phase is a double, and the source adds 0.05 to it
  with rounding. \<open>round_double\<close> rounds a real to the nearest double, ties to even, for
  values in the normal range: \<open>exponent2 x\<close> is the integer \<open>e\<close> with
  \<open>2 ^ e \<le> x < 2 ^ (e + 1)\<close>, and a double has 53 significant bits.
\<close>

definition exponent2 :: "real \<Rightarrow> int" where
  "exponent2 x = (if 1 \<le> x then bitlen \<lfloor>x\<rfloor> - 1 else - bitlen (\<lceil>1 / x\<rceil> - 1))"

definition pow2 :: "int \<Rightarrow> real" where
  "pow2 e = (if 0 \<le> e then 2 ^ nat e else 1 / 2 ^ nat (- e))"

definition round_half_even :: "real \<Rightarrow> int" where
  "round_half_even m =
     (let f = \<lfloor>m\<rfloor>; r = m - of_int f
      in if r < 1 / 2 then f
         else if 1 / 2 < r then f + 1
         else if even f then f else f + 1)"

definition round_double :: "real \<Rightarrow> real" where
  "round_double x =
     (if x = 0 then 0
      else if 0 < x then
        (let ulp = pow2 (exponent2 x - 52) in of_int (round_half_even (x / ulp)) * ulp)
      else
        (let ulp = pow2 (exponent2 (- x) - 52) in - (of_int (round_half_even (- x / ulp)) * ulp)))"

definition fl_add :: "real \<Rightarrow> real \<Rightarrow> real" where
  "fl_add x y = round_double (x + y)"

text \<open>The literal \<^verbatim>\<open>0.05\<close>.\<close>

definition lit_0_05 :: real where
  "lit_0_05 = round_double (5 / 100)"

subsection \<open>Auto flight\<close>

text \<open>The private \<^verbatim>\<open>update(delta)\<close>: \<^verbatim>\<open>moveBodyChildren()\<close> without argument, then the HUD.\<close>

definition auto_update :: "real \<Rightarrow> world \<Rightarrow> error option \<times> world" where
  "auto_update delta w = hud_update delta (emit (MoveBodyChildren None) w)"

definition translateTo :: "Body \<Rightarrow> world \<Rightarrow> world" where
  "translateTo body w = w\<lparr>auto_animationFrame := FrameTranslateTo body\<rparr>"

text \<open>The frame that \<^verbatim>\<open>translateTo(body)\<close> installs; \<^verbatim>\<open>this\<close> is the auto mode.\<close>

definition translateTo_animationFrame ::
  "env \<Rightarrow> Body \<Rightarrow> real \<Rightarrow> world \<Rightarrow> (error + signal) \<times> world" where
  "translateTo_animationFrame env body delta w =
     (if isColliding body (the_camera w) then
        (case flight_setMode ''menu'' w of
           (Some e, w1) \<Rightarrow> (Inl e, w1)
         | (None, w1) \<Rightarrow> (Inr Stop, w1))
      else
        let translationZ =
              js_mul (js_mul (Num (config_controls_z_speed w)) (Num delta))
                     (flight_getTranslationSpeedMultiplier (Some [body]) w);
            w1 = set_speed Auto (js_div translationZ (Num delta)) w;
            w2 = w1\<lparr>the_camera := translateZ env (js_neg translationZ) (the_camera w1)\<rparr>
        in case auto_update delta w2 of
             (Some e, w3) \<Rightarrow> (Inl e, w3)
           | (None, w3) \<Rightarrow> (Inr Continue, w3))"

text \<open>
  The frame that \<^verbatim>\<open>panTo(body)\<close> installs. \<^verbatim>\<open>t\<close>, \<^verbatim>\<open>initialQuaternion\<close> and
  \<^verbatim>\<open>targetQuaternion\<close> are variables of the enclosing closure and live in the state.
\<close>

definition panTo_animationFrame ::
  "env \<Rightarrow> Body \<Rightarrow> real \<Rightarrow> world \<Rightarrow> (error + signal) \<times> world" where
  "panTo_animationFrame env body delta w =
     (let w1 = (if 1 < pan_t w \<and> pan_t w < fl_add 1 lit_0_05 then w\<lparr>pan_t := 1\<rparr> else w)
      in if pan_t w1 \<le> 1 then
           let w2 = w1\<lparr>the_camera := (the_camera w1)\<lparr>cam_quaternion :=
                          slerp env (initialQuaternion w1) (targetQuaternion w1) (pan_t w1)\<rparr>\<rparr>
           in case auto_update delta w2 of
                (Some e, w3) \<Rightarrow> (Inl e, w3)
              | (None, w3) \<Rightarrow> (Inr Continue, w3\<lparr>pan_t := fl_add (pan_t w3) lit_0_05\<rparr>)
         else (Inr Continue, translateTo body w1))"

text \<open>
  \<^verbatim>\<open>panTo(body)\<close>. Reading \<^verbatim>\<open>body.mesh.position\<close> throws when the Body has no \<^verbatim>\<open>mesh\<close>; the
  initial quaternion has been captured by then.
\<close>

definition panTo :: "env \<Rightarrow> Body \<Rightarrow> world \<Rightarrow> error option \<times> world" where
  "panTo env body w =
     (let w1 = w\<lparr>initialQuaternion := cam_quaternion (the_camera w)\<rparr>
      in case mesh body of
           None \<Rightarrow> (Some TypeError, w1)
         | Some m \<Rightarrow>
             (None,
              w1\<lparr>targetQuaternion :=
                    lookAt_quaternion env (cam_position (the_camera w1)) (obj_position m)
                      (cam_up (the_camera w1)),
                  pan_t := 0,
                  auto_animationFrame := FramePanTo body\<rparr>))"

text \<open>
  \<^verbatim>\<open>flight.modes.auto.flyTo(body)\<close>: the notice, \<^verbatim>\<open>time-on\<close> switched off, then \<^verbatim>\<open>panTo\<close>.
\<close>

definition auto_flyTo :: "env \<Rightarrow> Body \<Rightarrow> world \<Rightarrow> error option \<times> world" where
  "auto_flyTo env body w =
     panTo env body ((emit (NoticeSet (body_name body)) w)\<lparr>config_time_on := False\<rparr>)"

subsection \<open>The animation loop\<close>

text \<open>\<^verbatim>\<open>flight.modes[k].animationFrame(delta)\<close>, whichever function that currently is.\<close>

definition mode_animationFrame ::
  "env \<Rightarrow> mode_key \<Rightarrow> real \<Rightarrow> world \<Rightarrow> (error + signal) \<times> world" where
  "mode_animationFrame env k delta w =
     (case k of
        Free \<Rightarrow> free_animationFrame env delta w
      | Menu \<Rightarrow> (Inr Stop, w)
      | Auto \<Rightarrow>
          (case auto_animationFrame w of
             FramePrototype \<Rightarrow> (Inr Continue, w)
           | FramePanTo body \<Rightarrow> panTo_animationFrame env body delta w
           | FrameTranslateTo body \<Rightarrow> translateTo_animationFrame env body delta w))"

text \<open>The callback that \<^verbatim>\<open>Mode.prototype.animate\<close> hands to the renderer.\<close>

definition animate_callback ::
  "env \<Rightarrow> mode_key \<Rightarrow> real \<Rightarrow> world \<Rightarrow> (error + signal) \<times> world" where
  "animate_callback env k delta w =
     (if \<not> enabled (modes w k) then
        (Inr Stop,
         emit (ConsoleLog (''stop animating for '' @ mode_name (modes w k) @ '' flight mode'')) w)
      else mode_animationFrame env k delta w)"

text \<open>
  Modelled from the spec: \<^verbatim>\<open>KIMCHI.renderer.animate\<close> is defined in another module. Like the
  older \<^verbatim>\<open>KIMCHI.rendering.animate\<close> of \<^verbatim>\<open>kimchi.utils.js\<close>, it calls the callback once per
  frame, with that frame's \<^verbatim>\<open>delta\<close>, until the callback returns \<^verbatim>\<open>false\<close> or throws. The list
  holds the deltas of the frames still to come.
\<close>

fun animate_loop ::
  "env \<Rightarrow> mode_key \<Rightarrow> real list \<Rightarrow> world \<Rightarrow> (error + signal) \<times> world" where
  "animate_loop env k [] w = (Inr Continue, w)"
| "animate_loop env k (delta # deltas) w =
     (case animate_callback env k delta w of
        (Inr Continue, w1) \<Rightarrow> animate_loop env k deltas w1
      | (Inr Stop, w1) \<Rightarrow> (Inr Stop, w1)
      | (Inl e, w1) \<Rightarrow> (Inl e, w1))"

subsection \<open>Predicates on states\<close>

text \<open>
  What holds between calls: a mode that is enabled is the one \<open>currentMode\<close> names.
\<close>

definition current_only :: "world \<Rightarrow> bool" where
  "current_only w \<longleftrightarrow> (\<forall>k. enabled (modes w k) \<longrightarrow> flight_modes (currentMode w) = Some k)"

text \<open>Switching modes touches the flags, the current name and the trace, nothing else.\<close>

definition same_scene :: "world \<Rightarrow> world \<Rightarrow> bool" where
  "same_scene w' w \<longleftrightarrow>
     auto_animationFrame w' = auto_animationFrame w
     \<and> initialQuaternion w' = initialQuaternion w
     \<and> targetQuaternion w' = targetQuaternion w
     \<and> pan_t w' = pan_t w
     \<and> the_camera w' = the_camera w
     \<and> bodies w' = bodies w
     \<and> localTranslationVector w' = localTranslationVector w
     \<and> config_time_on w' = config_time_on w
     \<and> config_rotate_bodies w' = config_rotate_bodies w
     \<and> config_controls_z_speed w' = config_controls_z_speed w
     \<and> config_controls_strafe_speed w' = config_controls_strafe_speed w
     \<and> (\<forall>j. speed (modes w' j) = speed (modes w j))"

text \<open>
  The value of \<^verbatim>\<open>t\<close> after \<open>n\<close> frames of the pan phase in which \<^verbatim>\<open>t\<close> was not reset to 1.
\<close>

fun pan_seq :: "nat \<Rightarrow> real" where
  "pan_seq 0 = 0"
| "pan_seq (Suc n) = fl_add (pan_seq n) lit_0_05"

text \<open>The auto mode is in its pan phase, with the given closure variables.\<close>

definition panning :: "Body \<Rightarrow> quat \<Rightarrow> quat \<Rightarrow> real \<Rightarrow> world \<Rightarrow> bool" where
  "panning body q0 q1 t w \<longleftrightarrow>
     auto_animationFrame w = FramePanTo body
     \<and> enabled (modes w Auto)
     \<and> currentMode w = ''auto''
     \<and> initialQuaternion w = q0
     \<and> targetQuaternion w = q1
     \<and> pan_t w = t"

text \<open>What a frame of the pan phase leaves alone.\<close>

definition pan_keeps :: "world \<Rightarrow> world \<Rightarrow> bool" where
  "pan_keeps w' w \<longleftrightarrow>
     cam_position (the_camera w') = cam_position (the_camera w)
     \<and> cam_up (the_camera w') = cam_up (the_camera w)
     \<and> bodies w' = bodies w
     \<and> config_controls_z_speed w' = config_controls_z_speed w
     \<and> currentMode w' = currentMode w
     \<and> modes w' = modes w"

text \<open>How often \<^verbatim>\<open>flight.modes.free.enable()\<close> has been called.\<close>

definition free_activations :: "world \<Rightarrow> nat" where
  "free_activations w = count_list (trace w) (EnableCalled Free)"

text \<open>Auto flight is the current mode and the only mode enabled.\<close>

definition auto_flying :: "world \<Rightarrow> bool" where
  "auto_flying w \<longleftrightarrow> currentMode w = ''auto'' \<and> enabled_modes w = [Auto]"

subsection \<open>Concrete inputs\<close>

text \<open>A camera at the origin, and the module as loaded with no bodies around.\<close>

definition camera0 :: camera where
  "camera0 = \<lparr>cam_position = (0, 0, 0), cam_quaternion = (0, 0, 0, 1), cam_up = (0, 1, 0)\<rparr>"

definition world0 :: world where
  "world0 = flight_init camera0 [] (0, 0, 0) True True 1 1"

text \<open>
  Options that give no key at all, the number of kilometres in an astronomical unit, and two
  bodies whose radii are one and two astronomical units.
\<close>

definition no_options :: options where
  "no_options = \<lparr>opt_name = None, opt_radiusInKm = None, opt_collideable = None, opt_mesh = None\<rparr>"

definition kmPerAu0 :: real where
  "kmPerAu0 = 149597871"

definition body1 :: Body where
  "body1 = Body_new kmPerAu0 (no_options\<lparr>opt_name := Some ''One'', opt_radiusInKm := Some 149597871\<rparr>)"

definition body2 :: Body where
  "body2 = Body_new kmPerAu0 (no_options\<lparr>opt_name := Some ''Two'', opt_radiusInKm := Some 299195742\<rparr>)"

text \<open>
  A stand-in for the 3D engine and the controls: the camera is not rotated, every object
  handed to the raycaster is hit at the distance \<open>d\<close>, the interpolation of quaternions is
  linear, and the target orientation is always the same.
\<close>

definition env0 :: "real \<Rightarrow> env" where
  "env0 d =
     \<lparr>localToWorld = (\<lambda>cam v. case (cam_position cam, v) of
                         ((px, py, pz), (x, y, z)) \<Rightarrow> (px + x, py + y, pz + z)),
      intersectObjects = (\<lambda>origin direction objects.
                           map (\<lambda>obj. \<lparr>int_object = obj, int_distance = d\<rparr>) objects),
      slerp = (\<lambda>q0 q1 t. case (q0, q1) of
                 ((x0, y0, z0, w0), (x1, y1, z1, w1)) \<Rightarrow>
                   (x0 + t * (x1 - x0), y0 + t * (y1 - y0),
                    z0 + t * (z1 - z0), w0 + t * (w1 - w0))),
      lookAt_quaternion = (\<lambda>eye target up. (0, 1, 0, 0)),
      translateZ = (\<lambda>n cam. case (n, cam_position cam) of
                      (Num dz, (px, py, pz)) \<Rightarrow> cam\<lparr>cam_position := (px, py, pz + dz)\<rparr>
                    | _ \<Rightarrow> cam),
      moveCamera = (\<lambda>delta n v cam. case (n, cam_position cam, v) of
                      (Num m, (px, py, pz), (x, y, z)) \<Rightarrow>
                        cam\<lparr>cam_position := (px + x * delta * m, py + y * delta * m,
                                             pz + z * delta * m)\<rparr>
                    | _ \<Rightarrow> cam)\<rparr>"

text \<open>
  A sphere of radius one astronomical unit three units in front of the camera, and a second
  one of radius two at distance five that cannot be collided with.
\<close>

definition near_body :: Body where
  "near_body = (Body_new kmPerAu0
      (no_options\<lparr>opt_name := Some ''Near'', opt_radiusInKm := Some 149597871\<rparr>))
      \<lparr>object3Ds_main := \<lparr>obj_name = ''Near'', obj_position = (0, 0, - 3), obj_scale_x = 1\<rparr>\<rparr>"

definition far_body :: Body where
  "far_body = (Body_new kmPerAu0
      (no_options\<lparr>opt_name := Some ''Far'', opt_radiusInKm := Some 299195742,
                  opt_collideable := Some False\<rparr>))
      \<lparr>object3Ds_main := \<lparr>obj_name = ''Far'', obj_position = (3, 4, 0), obj_scale_x = 1\<rparr>\<rparr>"

text \<open>
  The module as loaded with these two spheres and the user pushing forward, and the same
  after \<^verbatim>\<open>setMode('free')\<close> and after \<^verbatim>\<open>setMode('auto')\<close>.
\<close>

definition world1 :: world where
  "world1 = flight_init camera0 [far_body, near_body] (0, 0, - 1) True True 1 1"

definition free_world :: world where
  "free_world = snd (flight_setMode ''free'' world1)"

definition auto_world :: world where
  "auto_world = snd (flight_setMode ''auto'' world1)"

text \<open>
  The near sphere as a target of auto flight, with the \<^verbatim>\<open>mesh\<close> that \<^verbatim>\<open>panTo\<close> reads; the
  translate phase towards it, with the camera on the z axis at \<open>z\<close> and a speed of 1; and two
  states of that phase, one with the camera at the origin and one with the camera one unit
  from the centre of the sphere.
\<close>

definition target_body :: Body where
  "target_body = near_body\<lparr>mesh := Some (object3Ds_main near_body)\<rparr>"

definition approaching :: "real \<Rightarrow> world \<Rightarrow> bool" where
  "approaching z w \<longleftrightarrow>
     auto_animationFrame w = FrameTranslateTo target_body
     \<and> enabled (modes w Auto)
     \<and> currentMode w = ''auto''
     \<and> cam_position (the_camera w) = (0, 0, z)
     \<and> config_controls_z_speed w = 1"

definition translate_world :: world where
  "translate_world = translateTo target_body auto_world"

definition close_world :: world where
  "close_world = translate_world\<lparr>the_camera := camera0\<lparr>cam_position := (0, 0, - 2)\<rparr>\<rparr>"


section \<open>Properties\<close>

subsection \<open>The mode switch\<close>

lemma emit_simps [simp]:
  "modes (emit e w) = modes w"
  "currentMode (emit e w) = currentMode w"
  "trace (emit e w) = trace w @ [e]"
  by (simp_all add: emit_def)

lemma set_enabled_simps [simp]:
  "enabled (modes (set_enabled k b w) j) = (if j = k then b else enabled (modes w j))"
  "currentMode (set_enabled k b w) = currentMode w"
  "trace (set_enabled k b w) = trace w"
  by (simp_all add: set_enabled_def)

lemma mode_enable_enabled [simp]:
  "enabled (modes (mode_enable k w) j) = (j = k \<or> enabled (modes w j))"
  by (cases k) (auto simp: Mode_prototype_enable_def Mode_prototype_animate_def)

lemma mode_disable_enabled [simp]:
  "enabled (modes (mode_disable k w) j) = (j \<noteq> k \<and> enabled (modes w j))"
  by (cases k) (auto simp: Mode_prototype_disable_def)

lemma mode_enable_currentMode [simp]: "currentMode (mode_enable k w) = currentMode w"
  by (cases k) (simp_all add: Mode_prototype_enable_def Mode_prototype_animate_def)

lemma mode_disable_currentMode [simp]: "currentMode (mode_disable k w) = currentMode w"
  by (cases k) (simp_all add: Mode_prototype_disable_def)

lemma flight_modes_key_name [simp]: "flight_modes (key_name k) = Some k"
  by (cases k) (simp_all add: flight_modes_def)

lemma current_only_init: "current_only (flight_init cam bs tv ton ron zs ss)"
  by (simp add: current_only_def flight_init_def Mode_new_def)

lemma current_only_setMode: "current_only w \<Longrightarrow> current_only (snd (flight_setMode name w))"
  by (auto simp: current_only_def flight_setMode_def Let_def split: option.splits)

lemma current_only_setModes: "current_only w \<Longrightarrow> current_only (setModes names w)"
  by (induction names arbitrary: w) (simp_all add: current_only_setMode)

lemma current_only_at_most_one: "current_only w \<Longrightarrow> length (enabled_modes w) \<le> 1"
  by (cases "flight_modes (currentMode w)") (auto simp: current_only_def enabled_modes_def)

lemma setMode_currentMode:
  "currentMode (snd (flight_setMode name w)) =
     (if flight_modes name = None then currentMode w else name)"
  by (auto simp: flight_setMode_def Let_def split: option.splits)

lemma setMode_enabled:
  "enabled (modes (snd (flight_setMode name w)) j) =
     (if currentMode w = name then enabled (modes w j)
      else if flight_modes name = Some j then True
      else flight_modes (currentMode w) \<noteq> Some j \<and> enabled (modes w j))"
  by (auto simp: flight_setMode_def Let_def split: option.splits)

lemma init_simps:
  "currentMode (flight_init cam bs tv ton ron zs ss) = []"
  "enabled (modes (flight_init cam bs tv ton ron zs ss) k) = False"
  "trace (flight_init cam bs tv ton ron zs ss) = []"
  by (simp_all add: flight_init_def Mode_new_def)

lemma flight_modes_simps:
  "flight_modes ''free'' = Some Free"
  "flight_modes ''auto'' = Some Auto"
  "flight_modes ''menu'' = Some Menu"
  "flight_modes [] = None"
  by (simp_all add: flight_modes_def)

text \<open>
  Claim C1. Start from the module as loaded and call \<^verbatim>\<open>setMode\<close> any number of times, each
  time with one of the names \<^verbatim>\<open>free\<close>, \<^verbatim>\<open>auto\<close>, \<^verbatim>\<open>menu\<close>. After the last call at most one
  of the three modes has \<^verbatim>\<open>enabled\<close> true. Every prefix of a sequence of calls is itself
  such a sequence, so this holds at every point between two calls.
\<close>

theorem setMode_exclusive_activation:
  "set names \<subseteq> {''free'', ''auto'', ''menu''} \<Longrightarrow>
   length (enabled_modes (setModes names (flight_init cam bs tv ton ron zs ss))) \<le> 1"
  by (rule current_only_at_most_one) (rule current_only_setModes, rule current_only_init)

theorem setMode_exclusive_activation_witness:
  "set [''free'', ''auto'', ''auto'', ''menu'', ''free''] \<subseteq> {''free'', ''auto'', ''menu''}
   \<and> enabled_modes (setModes [''free'', ''auto'', ''auto'', ''menu'', ''free'']
        (flight_init camera0 [] (0, 0, 0) True True 1 1)) = [Free]
   \<and> length (enabled_modes (setModes [''free'', ''auto'', ''auto'', ''menu'', ''free'']
        (flight_init camera0 [] (0, 0, 0) True True 1 1))) \<le> 1"
  using setMode_exclusive_activation [of "[''free'', ''auto'', ''auto'', ''menu'', ''free'']"
      camera0 "[]" "(0, 0, 0)" True True 1 1]
  by (simp add: enabled_modes_def setMode_enabled setMode_currentMode init_simps
      flight_modes_simps)

lemma emit_fields [simp]:
  "auto_animationFrame (emit e w) = auto_animationFrame w"
  "initialQuaternion (emit e w) = initialQuaternion w"
  "targetQuaternion (emit e w) = targetQuaternion w"
  "pan_t (emit e w) = pan_t w"
  "the_camera (emit e w) = the_camera w"
  "bodies (emit e w) = bodies w"
  "localTranslationVector (emit e w) = localTranslationVector w"
  "config_time_on (emit e w) = config_time_on w"
  "config_rotate_bodies (emit e w) = config_rotate_bodies w"
  "config_controls_z_speed (emit e w) = config_controls_z_speed w"
  "config_controls_strafe_speed (emit e w) = config_controls_strafe_speed w"
  by (simp_all add: emit_def)

lemma Mode_prototype_enable_simps [simp]:
  "trace (Mode_prototype_enable k w) = trace w @ [RendererAnimate k]"
  "currentMode (Mode_prototype_enable k w) = currentMode w"
  "enabled (modes (Mode_prototype_enable k w) j) = (j = k \<or> enabled (modes w j))"
  "speed (modes (Mode_prototype_enable k w) j) = speed (modes w j)"
  "auto_animationFrame (Mode_prototype_enable k w) = auto_animationFrame w"
  "initialQuaternion (Mode_prototype_enable k w) = initialQuaternion w"
  "targetQuaternion (Mode_prototype_enable k w) = targetQuaternion w"
  "pan_t (Mode_prototype_enable k w) = pan_t w"
  "the_camera (Mode_prototype_enable k w) = the_camera w"
  "bodies (Mode_prototype_enable k w) = bodies w"
  by (simp_all add: Mode_prototype_enable_def Mode_prototype_animate_def set_enabled_def emit_def)

lemma Mode_prototype_disable_simps [simp]:
  "trace (Mode_prototype_disable k w) = trace w"
  "currentMode (Mode_prototype_disable k w) = currentMode w"
  "enabled (modes (Mode_prototype_disable k w) j) = (j \<noteq> k \<and> enabled (modes w j))"
  "speed (modes (Mode_prototype_disable k w) j) = speed (modes w j)"
  "auto_animationFrame (Mode_prototype_disable k w) = auto_animationFrame w"
  "initialQuaternion (Mode_prototype_disable k w) = initialQuaternion w"
  "targetQuaternion (Mode_prototype_disable k w) = targetQuaternion w"
  "pan_t (Mode_prototype_disable k w) = pan_t w"
  "the_camera (Mode_prototype_disable k w) = the_camera w"
  "bodies (Mode_prototype_disable k w) = bodies w"
  by (simp_all add: Mode_prototype_disable_def set_enabled_def)

lemma enabled_modes_emit [simp]: "enabled_modes (emit e w) = enabled_modes w"
  by (simp add: enabled_modes_def)

lemma mode_enable_trace:
  "trace (mode_enable Free w) =
     trace w @ [EnableCalled Free, RendererAnimate Free, HudShow, ControlsEnable]"
  "trace (mode_enable Auto w) =
     trace w @ [EnableCalled Auto, RendererAnimate Auto, DocumentOnKeydown Auto]"
  "trace (mode_enable Menu w) =
     trace w @ [EnableCalled Menu, RendererAnimate Menu, ClockStop, PanelUpdate, OverlayShow,
                DocumentOnKeydown Menu]"
  by simp_all

lemma mode_disable_trace:
  "trace (mode_disable Free w) = trace w @ [DisableCalled Free, ControlsDisable, HudHide]"
  "trace (mode_disable Auto w) =
     trace w @ [DisableCalled Auto, NoticeClear, DocumentOffKeydown Auto]"
  "trace (mode_disable Menu w) =
     trace w @ [DisableCalled Menu, OverlayHide, ClockStart, DocumentOffKeydown Menu]"
  by simp_all

lemma setMode_same: "currentMode w = name \<Longrightarrow> flight_setMode name w = (None, w)"
  by (simp add: flight_setMode_def)

lemma setMode_first_trace:
  "flight_modes name = Some k \<Longrightarrow>
   trace (snd (flight_setMode name (flight_init cam bs tv ton ron zs ss))) =
     trace (mode_enable k (flight_init cam bs tv ton ron zs ss))
       @ [ConsoleLog (''flight mode changed from '' @ [] @ '' to '' @ name)]"
  by (auto simp: flight_setMode_def Let_def init_simps flight_modes_simps)

text \<open>
  Claim C6. \<^verbatim>\<open>setMode\<close> called with the name of the current mode returns at once and changes
  nothing. Hence a second \<^verbatim>\<open>setMode(name)\<close> right after a first one, for any of the three
  names, leaves the state the first call produced; on the module as loaded the two calls
  together call \<^verbatim>\<open>enable()\<close> of that mode exactly once and no \<^verbatim>\<open>disable()\<close>.
\<close>

theorem setMode_current_mode_is_noop:
  assumes "flight_modes name = Some k"
  shows "(currentMode w = name \<longrightarrow> flight_setMode name w = (None, w))
    \<and> flight_setMode name (snd (flight_setMode name w)) = (None, snd (flight_setMode name w))
    \<and> setModes [name, name] (flight_init cam bs tv ton ron zs ss) =
        setModes [name] (flight_init cam bs tv ton ron zs ss)
    \<and> count_list (trace (setModes [name, name] (flight_init cam bs tv ton ron zs ss)))
        (EnableCalled k) = 1
    \<and> (\<forall>j. DisableCalled j \<notin> set (trace (setModes [name, name] (flight_init cam bs tv ton ron zs ss))))"
proof -
  have cur: "currentMode (snd (flight_setMode name w')) = name" for w'
    using assms by (simp add: setMode_currentMode)
  have again: "flight_setMode name (snd (flight_setMode name w')) = (None, snd (flight_setMode name w'))" for w'
    by (rule setMode_same) (rule cur)
  have tr: "trace (snd (flight_setMode name (flight_init cam bs tv ton ron zs ss))) =
     trace (mode_enable k (flight_init cam bs tv ton ron zs ss))
       @ [ConsoleLog (''flight mode changed from '' @ [] @ '' to '' @ name)]"
    using assms by (rule setMode_first_trace)
  have cnt: "count_list (trace (snd (flight_setMode name (flight_init cam bs tv ton ron zs ss)))) (EnableCalled k) = 1"
    unfolding tr by (cases k) (simp_all add: mode_enable_trace init_simps)
  have nodis: "DisableCalled j \<notin> set (trace (snd (flight_setMode name (flight_init cam bs tv ton ron zs ss))))" for j
    unfolding tr by (cases k) (simp_all add: mode_enable_trace init_simps)
  show ?thesis
    using again cnt nodis by (simp add: setMode_same)
qed

theorem setMode_current_mode_is_noop_witness:
  "flight_modes ''free'' = Some Free
   \<and> flight_setMode ''free'' (snd (flight_setMode ''free'' world0)) =
       (None, snd (flight_setMode ''free'' world0))
   \<and> trace (setModes [''free'', ''free''] world0) =
       [EnableCalled Free, RendererAnimate Free, HudShow, ControlsEnable,
        ConsoleLog ''flight mode changed from  to free'']
   \<and> count_list (trace (setModes [''free'', ''free''] world0)) (EnableCalled Free) = 1"
  using setMode_current_mode_is_noop [of "''free''" Free world0 camera0 "[]" "(0, 0, 0)" True True 1 1]
    setMode_first_trace [of "''free''" Free camera0 "[]" "(0, 0, 0)" True True 1 1]
  by (simp add: flight_modes_simps world0_def mode_enable_trace init_simps)

lemma enabled_modes_single:
  "enabled_modes w = [p] \<Longrightarrow> enabled (modes w k) \<longleftrightarrow> k = p"
  by (cases k; cases p) (auto simp: enabled_modes_def split: if_splits)

lemma enabled_modes_empty: "(\<forall>k. \<not> enabled (modes w k)) \<Longrightarrow> enabled_modes w = []"
  by (simp add: enabled_modes_def)

text \<open>
  Claim C9. When \<^verbatim>\<open>setMode\<close> is called with a name that is none of the three modes while a
  mode \<open>p\<close> is active, \<^verbatim>\<open>disable()\<close> of \<open>p\<close> has run by the time the call throws: the call
  ends with a \<^verbatim>\<open>TypeError\<close>, no mode is enabled afterwards, and \<^verbatim>\<open>currentMode\<close> still holds
  the previous name. Nothing is restored.
\<close>

theorem setMode_unknown_name_disables_first:
  assumes "flight_modes name = None"
    and "flight_modes (currentMode w) = Some p"
    and "enabled_modes w = [p]"
  shows "flight_setMode name w = (Some TypeError, mode_disable p w)
    \<and> enabled_modes (snd (flight_setMode name w)) = []
    \<and> currentMode (snd (flight_setMode name w)) = currentMode w"
proof -
  from assms(1,2) have ne: "currentMode w \<noteq> name" by auto
  have r: "flight_setMode name w = (Some TypeError, mode_disable p w)"
    using assms(1,2) ne by (simp add: flight_setMode_def)
  have "enabled_modes (mode_disable p w) = []"
    by (rule enabled_modes_empty) (simp add: enabled_modes_single [OF assms(3)])
  with r show ?thesis by simp
qed

lemma enabled_modes_after_free: "enabled_modes (snd (flight_setMode ''free'' world0)) = [Free]"
  by (simp add: enabled_modes_def setMode_enabled flight_modes_simps world0_def init_simps)

theorem setMode_unknown_name_disables_first_witness:
  "flight_modes ''warp'' = None
   \<and> flight_modes (currentMode (snd (flight_setMode ''free'' world0))) = Some Free
   \<and> enabled_modes (snd (flight_setMode ''free'' world0)) = [Free]
   \<and> fst (flight_setMode ''warp'' (snd (flight_setMode ''free'' world0))) = Some TypeError
   \<and> enabled_modes (snd (flight_setMode ''warp'' (snd (flight_setMode ''free'' world0)))) = []
   \<and> currentMode (snd (flight_setMode ''warp'' (snd (flight_setMode ''free'' world0)))) = ''free''"
proof -
  have a: "flight_modes ''warp'' = None" by (simp add: flight_modes_def)
  have b: "flight_modes (currentMode (snd (flight_setMode ''free'' world0))) = Some Free"
    by (simp add: setMode_currentMode flight_modes_simps)
  note t = setMode_unknown_name_disables_first [OF a b enabled_modes_after_free]
  from t have 1: "fst (flight_setMode ''warp'' (snd (flight_setMode ''free'' world0))) = Some TypeError"
    by (simp only: fst_conv)
  from t have 2: "enabled_modes (snd (flight_setMode ''warp'' (snd (flight_setMode ''free'' world0)))) = []"
    by blast
  from t have "currentMode (snd (flight_setMode ''warp'' (snd (flight_setMode ''free'' world0)))) =
      currentMode (snd (flight_setMode ''free'' world0))"
    by blast
  then have 3: "currentMode (snd (flight_setMode ''warp'' (snd (flight_setMode ''free'' world0)))) = ''free''"
    by (simp add: setMode_currentMode flight_modes_simps)
  show ?thesis
    using a b enabled_modes_after_free 1 2 3 by blast
qed

text \<open>
  Claim C10. \<^verbatim>\<open>toggle()\<close> without a boolean argument never flips \<^verbatim>\<open>enabled\<close>: on an enabled
  mode it calls \<^verbatim>\<open>enable()\<close> again, on a disabled mode it calls \<^verbatim>\<open>disable()\<close>, and the flag
  is afterwards what it was before.
\<close>

theorem toggle_without_argument_keeps_enabled:
  "Mode_prototype_toggle k None w =
     (if enabled (modes w k) then mode_enable k w else mode_disable k w)
   \<and> enabled (modes (Mode_prototype_toggle k None w) k) = enabled (modes w k)"
  by (simp add: Mode_prototype_toggle_def)

theorem toggle_without_argument_keeps_enabled_witness:
  "enabled (modes (Mode_prototype_toggle Free None world0) Free) = False
   \<and> Mode_prototype_toggle Free None world0 = mode_disable Free world0
   \<and> enabled (modes (Mode_prototype_toggle Free None (snd (flight_setMode ''free'' world0))) Free) = True
   \<and> Mode_prototype_toggle Free None (snd (flight_setMode ''free'' world0)) =
       mode_enable Free (snd (flight_setMode ''free'' world0))"
  using toggle_without_argument_keeps_enabled [of Free world0]
    toggle_without_argument_keeps_enabled [of Free "snd (flight_setMode ''free'' world0)"]
  by (simp add: world0_def init_simps setMode_enabled flight_modes_simps)

subsection \<open>Bodies\<close>

lemma body1_scaled: "getScaledRadius body1 = 1"
  by (simp add: getScaledRadius_def body1_def Body_new_def Let_def no_options_def kmPerAu0_def)

lemma body2_scaled: "getScaledRadius body2 = 2"
  by (simp add: getScaledRadius_def body2_def Body_new_def Let_def no_options_def kmPerAu0_def)

lemma getCollisionDistance_twice: "getCollisionDistance b = 2 * getScaledRadius b"
  by (simp add: getCollisionDistance_def getSurfaceCollisionDistance_def)

text \<open>
  Claim C8 as stated fails twice. A Body constructed without \<^verbatim>\<open>radiusInKm\<close> takes the
  prototype's 0 and has radius 0, as has a Body constructed with \<^verbatim>\<open>radiusInKm\<close> 0. And what \<^verbatim>\<open>getCollisionDistance\<close> adds to the scaled
  radius is not fixed: it is 1 for a Body of scaled radius 1 and 2 for one of scaled radius 2.
\<close>

theorem collision_distance_fixed_margin_counterexample:
  "\<not> 0 < radius (Body_new kmPerAu0 no_options)
   \<and> \<not> 0 < radius (Body_new kmPerAu0 (no_options\<lparr>opt_radiusInKm := Some 0\<rparr>))
   \<and> getCollisionDistance body1 - getScaledRadius body1
       \<noteq> getCollisionDistance body2 - getScaledRadius body2"
  by (simp add: getCollisionDistance_twice body1_scaled body2_scaled Body_new_def Let_def no_options_def)

text \<open>
  Claim C8, amended. The collision distance is the scaled radius plus the surface collision
  distance, which is the scaled radius again: twice the scaled radius, strictly increasing in
  it. The radius is \<^verbatim>\<open>radiusInKm / kmPerAu\<close>; for a positive \<^verbatim>\<open>kmPerAu\<close> it is strictly
  positive exactly when the options give a strictly positive \<^verbatim>\<open>radiusInKm\<close>.
\<close>

theorem collision_distance_is_twice_scaled_radius:
  "getCollisionDistance b = getScaledRadius b + getSurfaceCollisionDistance b
   \<and> getSurfaceCollisionDistance b = getScaledRadius b
   \<and> getCollisionDistance b = 2 * getScaledRadius b
   \<and> (getScaledRadius b < getScaledRadius b' \<longrightarrow> getCollisionDistance b < getCollisionDistance b')
   \<and> radius (Body_new kmPerAu opts) = radiusInKm (Body_new kmPerAu opts) / kmPerAu
   \<and> (0 < kmPerAu \<longrightarrow>
        (0 < radius (Body_new kmPerAu opts) \<longleftrightarrow> (\<exists>r. opt_radiusInKm opts = Some r \<and> 0 < r)))"
  by (auto simp: getCollisionDistance_def getSurfaceCollisionDistance_def Body_new_def Let_def
      zero_less_divide_iff split: option.splits)

theorem collision_distance_is_twice_scaled_radius_witness:
  "getScaledRadius body1 < getScaledRadius body2
   \<and> getCollisionDistance body1 = 2 \<and> getCollisionDistance body2 = 4
   \<and> getCollisionDistance body1 < getCollisionDistance body2
   \<and> 0 < kmPerAu0
   \<and> 0 < radius (Body_new kmPerAu0 (no_options\<lparr>opt_radiusInKm := Some 6371\<rparr>))"
  using collision_distance_is_twice_scaled_radius [of body1 body2 kmPerAu0
      "no_options\<lparr>opt_radiusInKm := Some 6371\<rparr>"]
    collision_distance_is_twice_scaled_radius [of body2 body2 kmPerAu0 no_options]
  by (simp add: body1_scaled body2_scaled kmPerAu0_def no_options_def Body_new_def Let_def)

subsection \<open>Free flight\<close>

lemma vec_length_zero_iff: "vec_length v = 0 \<longleftrightarrow> v = (0, 0, 0)"
  by (cases v) (auto simp: add_nonneg_eq_0_iff)

lemma colliding_each_iff:
  "(\<forall>i \<in> set is. \<exists>b. getBody bs (obj_name (int_object i)) = Inr b) \<Longrightarrow>
   colliding_each bs is =
     Inr (\<exists>i \<in> set is. \<exists>b. getBody bs (obj_name (int_object i)) = Inr b
            \<and> int_distance i < getCollisionDistance b)"
  by (induction "is") auto

text \<open>
  Claim C2. In free flight, with a translation vector that is not zero, \<^verbatim>\<open>colliding()\<close> returns
  true if and only if some intersection reported by the raycaster is strictly closer than
  the collision distance of the Body that \<^verbatim>\<open>getBody\<close> finds for the intersected object. No
  intersection at all, or all of them at or beyond their collision distance, gives false.
  Every intersected object is taken to have a Body, as the objects handed to the raycaster
  are those of the collideable bodies.
\<close>

theorem colliding_iff_some_intersection_within_collision_distance:
  assumes "localTranslationVector w \<noteq> (0, 0, 0)"
    and "\<forall>i \<in> set (raycast env w). \<exists>b. getBody (bodies w) (obj_name (int_object i)) = Inr b"
  shows "colliding env w =
     Inr (\<exists>i \<in> set (raycast env w). \<exists>b.
            getBody (bodies w) (obj_name (int_object i)) = Inr b
            \<and> int_distance i < getCollisionDistance b)"
proof (cases "raycast env w = []")
  case True
  then show ?thesis using assms(1) by (simp add: colliding_def vec_length_zero_iff)
next
  case False
  then show ?thesis
    using assms(1) colliding_each_iff [OF assms(2)]
    by (simp add: colliding_def vec_length_zero_iff Let_def)
qed

lemma sqrt_9: "sqrt 9 = 3"
  by (rule real_sqrt_unique) simp_all

lemma sqrt_25: "sqrt 25 = 5"
  by (rule real_sqrt_unique) simp_all

lemma near_body_simps:
  "body_name near_body = ''Near''"
  "collideable near_body"
  "getCollisionDistance near_body = 2"
  "obj_position (object3Ds_main near_body) = (0, 0, - 3)"
  "obj_name (object3Ds_main near_body) = ''Near''"
  by (simp_all add: near_body_def Body_new_def Let_def no_options_def kmPerAu0_def
      getCollisionDistance_def getSurfaceCollisionDistance_def getScaledRadius_def)

lemma far_body_simps:
  "body_name far_body = ''Far''"
  "\<not> collideable far_body"
  "obj_position (object3Ds_main far_body) = (3, 4, 0)"
  by (simp_all add: far_body_def Body_new_def Let_def no_options_def kmPerAu0_def)

lemma world1_simps:
  "bodies world1 = [far_body, near_body]"
  "localTranslationVector world1 = (0, 0, - 1)"
  "the_camera world1 = camera0"
  "currentMode world1 = []"
  by (simp_all add: world1_def flight_init_def)

lemma raycast_world1:
  "raycast (env0 d) world1 = [\<lparr>int_object = object3Ds_main near_body, int_distance = d\<rparr>]"
  by (simp add: raycast_def env0_def world1_simps getCollideableObject3Ds_def
      getCollideableBodies_def near_body_simps far_body_simps)

lemma getBody_world1: "getBody (bodies world1) ''Near'' = Inr near_body"
  by (simp add: world1_simps near_body_simps far_body_simps)

theorem colliding_iff_some_intersection_within_collision_distance_witness:
  "colliding (env0 (1 / 2)) world1 = Inr True \<and> colliding (env0 2) world1 = Inr False"
proof -
  have tv: "localTranslationVector world1 \<noteq> (0, 0, 0)"
    by (simp add: world1_simps)
  have known: "\<forall>i \<in> set (raycast (env0 d) world1).
      \<exists>b. getBody (bodies world1) (obj_name (int_object i)) = Inr b" for d
    by (simp add: raycast_world1 near_body_simps getBody_world1)
  show ?thesis
    using colliding_iff_some_intersection_within_collision_distance [OF tv known, of "1 / 2"]
      colliding_iff_some_intersection_within_collision_distance [OF tv known, of 2]
    by (simp add: raycast_world1 near_body_simps getBody_world1)
qed

lemma getDistance_world1:
  "getDistance near_body camera0 = 3"
  "getDistance far_body camera0 = 5"
  by (simp_all add: getDistance_def Object3D_getDistance_def near_body_simps far_body_simps
      camera0_def sqrt_9 sqrt_25)

text \<open>
  Claim C5. On an empty list of bodies \<^verbatim>\<open>getTranslationSpeedMultiplier\<close> returns the
  sentinel, positive infinity, which is not \<^verbatim>\<open>NaN\<close>, and nothing is thrown. With the argument
  omitted the bodies are all the collideable ones, and on a list that is not empty the
  result is the least of the distances from the camera to the bodies of the list.
\<close>

theorem multiplier_of_no_bodies_is_infinite:
  "flight_getTranslationSpeedMultiplier (Some []) w = PosInf
   \<and> flight_getTranslationSpeedMultiplier (Some []) w \<noteq> NaN
   \<and> flight_getTranslationSpeedMultiplier None w =
       flight_getTranslationSpeedMultiplier (Some (filter collideable (bodies w))) w
   \<and> (bs \<noteq> [] \<longrightarrow>
        flight_getTranslationSpeedMultiplier (Some bs) w =
          Num (Min ((\<lambda>b. getDistance b (the_camera w)) ` set bs)))"
  by (simp add: flight_getTranslationSpeedMultiplier_def getClosestDistance_def
      getCollideableBodies_def)

theorem multiplier_of_no_bodies_is_infinite_witness:
  "flight_getTranslationSpeedMultiplier (Some []) world1 = PosInf
   \<and> flight_getTranslationSpeedMultiplier None world1 = Num 3
   \<and> flight_getTranslationSpeedMultiplier (Some [far_body, near_body]) world1 = Num 3
   \<and> flight_getTranslationSpeedMultiplier (Some [far_body]) world1 = Num 5"
  using multiplier_of_no_bodies_is_infinite [of world1 "[near_body]"]
    multiplier_of_no_bodies_is_infinite [of world1 "[far_body, near_body]"]
    multiplier_of_no_bodies_is_infinite [of world1 "[far_body]"]
  by (simp add: world1_simps near_body_simps far_body_simps getDistance_world1)

lemma hud_update_ok:
  "flight_modes (currentMode w) = Some k \<Longrightarrow>
   hud_update delta w =
     (None, w\<lparr>trace := trace w @
        [HudDistanceFromSun (vec_length (cam_position (the_camera w))),
         HudSpeed (speed (modes w k)), HudTime]\<rparr>)"
  by (simp add: hud_update_def flight_getSpeed_def emit_def)

lemma hud_update_fields:
  "the_camera (snd (hud_update delta w)) = the_camera w"
  "modes (snd (hud_update delta w)) = modes w"
  by (simp_all add: hud_update_def flight_getSpeed_def Let_def split: option.splits)

text \<open>
  Claim C7. On a frame of free flight in which \<^verbatim>\<open>colliding()\<close> returns true, the camera and
  the recorded speed of the free mode stay as they were, while the rest of the frame still
  happens: the bodies are translated and rotated when their flags are set, their children
  are moved, and the HUD is updated, showing the speed of an earlier frame.
\<close>

theorem free_frame_when_colliding:
  assumes "colliding env w = Inr True"
  shows "the_camera (snd (free_animationFrame env delta w)) = the_camera w
    \<and> speed (modes (snd (free_animationFrame env delta w)) Free) = speed (modes w Free)
    \<and> (flight_modes (currentMode w) = Some k \<longrightarrow>
         fst (free_animationFrame env delta w) = Inr Continue
         \<and> trace (snd (free_animationFrame env delta w)) =
             trace w
             @ (if config_time_on w then [TimeIncrementThenTranslateBodies delta] else [])
             @ (if config_rotate_bodies w then [RotateBodies delta] else [])
             @ [MoveBodyChildren (Some delta),
                HudDistanceFromSun (vec_length (cam_position (the_camera w))),
                HudSpeed (speed (modes w k)), HudTime])"
proof -
  define w4 where "w4 = emit (MoveBodyChildren (Some delta))
     ((if config_rotate_bodies w then emit (RotateBodies delta) else id)
       ((if config_time_on w then emit (TimeIncrementThenTranslateBodies delta) else id) w))"
  have frame: "free_animationFrame env delta w =
      (case hud_update delta w4 of (Some e, w5) \<Rightarrow> (Inl e, w5) | (None, w5) \<Rightarrow> (Inr Continue, w5))"
    using assms by (simp add: free_animationFrame_def w4_def Let_def)
  have snd_frame: "snd (free_animationFrame env delta w) = snd (hud_update delta w4)"
    unfolding frame by (cases "hud_update delta w4") (auto split: option.splits)
  have w4_fields: "the_camera w4 = the_camera w" "modes w4 = modes w" "currentMode w4 = currentMode w"
    "trace w4 = trace w
             @ (if config_time_on w then [TimeIncrementThenTranslateBodies delta] else [])
             @ (if config_rotate_bodies w then [RotateBodies delta] else [])
             @ [MoveBodyChildren (Some delta)]"
    by (simp_all add: w4_def)
  have cam: "the_camera (snd (free_animationFrame env delta w)) = the_camera w"
    by (simp add: snd_frame hud_update_fields w4_fields)
  have sp: "speed (modes (snd (free_animationFrame env delta w)) Free) = speed (modes w Free)"
    by (simp add: snd_frame hud_update_fields w4_fields)
  have tr: "fst (free_animationFrame env delta w) = Inr Continue
         \<and> trace (snd (free_animationFrame env delta w)) =
             trace w
             @ (if config_time_on w then [TimeIncrementThenTranslateBodies delta] else [])
             @ (if config_rotate_bodies w then [RotateBodies delta] else [])
             @ [MoveBodyChildren (Some delta),
                HudDistanceFromSun (vec_length (cam_position (the_camera w))),
                HudSpeed (speed (modes w k)), HudTime]"
    if "flight_modes (currentMode w) = Some k"
  proof -
    from that have "flight_modes (currentMode w4) = Some k" by (simp add: w4_fields)
    from hud_update_ok [OF this, of delta] show ?thesis
      by (simp add: frame w4_fields)
  qed
  from cam sp tr show ?thesis by blast
qed

lemma set_enabled_fields [simp]:
  "speed (modes (set_enabled k b w) j) = speed (modes w j)"
  "auto_animationFrame (set_enabled k b w) = auto_animationFrame w"
  "initialQuaternion (set_enabled k b w) = initialQuaternion w"
  "targetQuaternion (set_enabled k b w) = targetQuaternion w"
  "pan_t (set_enabled k b w) = pan_t w"
  "the_camera (set_enabled k b w) = the_camera w"
  "bodies (set_enabled k b w) = bodies w"
  "localTranslationVector (set_enabled k b w) = localTranslationVector w"
  "config_time_on (set_enabled k b w) = config_time_on w"
  "config_rotate_bodies (set_enabled k b w) = config_rotate_bodies w"
  "config_controls_z_speed (set_enabled k b w) = config_controls_z_speed w"
  "config_controls_strafe_speed (set_enabled k b w) = config_controls_strafe_speed w"
  by (simp_all add: set_enabled_def)

lemma speed_emit [simp]: "speed (modes (emit e w) j) = speed (modes w j)"
  by simp

lemma same_scene_refl [simp]: "same_scene w w"
  by (simp add: same_scene_def)

lemma same_scene_emit [simp]: "same_scene (emit e w') w = same_scene w' w"
  by (simp add: same_scene_def)

lemma same_scene_set_enabled [simp]: "same_scene (set_enabled k b w') w = same_scene w' w"
  by (simp add: same_scene_def)

lemma same_scene_mode_enable [simp]: "same_scene (mode_enable k w') w = same_scene w' w"
  by (cases k) (simp_all add: Mode_prototype_enable_def Mode_prototype_animate_def)

lemma same_scene_mode_disable [simp]: "same_scene (mode_disable k w') w = same_scene w' w"
  by (cases k) (simp_all add: Mode_prototype_disable_def)

lemma same_scene_currentMode [simp]: "same_scene (w'\<lparr>currentMode := n\<rparr>) w = same_scene w' w"
  by (simp add: same_scene_def)

lemma same_scene_setMode: "same_scene (snd (flight_setMode name w)) w"
  by (simp add: flight_setMode_def Let_def split: option.splits)

lemma colliding_same_scene: "same_scene w' w \<Longrightarrow> colliding env w' = colliding env w"
  by (simp add: same_scene_def colliding_def raycast_def Let_def)

lemma free_world_scene: "same_scene free_world world1"
  unfolding free_world_def by (rule same_scene_setMode)

lemma free_world_simps:
  "the_camera free_world = camera0"
  "currentMode free_world = ''free''"
  "speed (modes free_world Free) = Num 0"
  "config_time_on free_world"
  "config_rotate_bodies free_world"
proof -
  have "speed (modes world1 Free) = Num 0" "config_time_on world1" "config_rotate_bodies world1"
    by (simp_all add: world1_def flight_init_def Mode_new_def)
  then show "the_camera free_world = camera0" "speed (modes free_world Free) = Num 0"
    "config_time_on free_world" "config_rotate_bodies free_world"
    using free_world_scene by (simp_all add: same_scene_def world1_simps)
  show "currentMode free_world = ''free''"
    by (simp add: free_world_def setMode_currentMode flight_modes_simps)
qed

theorem free_frame_when_colliding_witness:
  "the_camera (snd (free_animationFrame (env0 (1 / 2)) (1 / 10) free_world)) = camera0
   \<and> speed (modes (snd (free_animationFrame (env0 (1 / 2)) (1 / 10) free_world)) Free) = Num 0
   \<and> fst (free_animationFrame (env0 (1 / 2)) (1 / 10) free_world) = Inr Continue
   \<and> trace (snd (free_animationFrame (env0 (1 / 2)) (1 / 10) free_world)) =
       trace free_world
       @ [TimeIncrementThenTranslateBodies (1 / 10), RotateBodies (1 / 10),
          MoveBodyChildren (Some (1 / 10)), HudDistanceFromSun 0, HudSpeed (Num 0), HudTime]"
proof -
  have "colliding (env0 (1 / 2)) world1 = Inr True"
    by (simp add: colliding_def world1_simps raycast_world1 near_body_simps far_body_simps)
  then have c: "colliding (env0 (1 / 2)) free_world = Inr True"
    by (simp add: colliding_same_scene [OF free_world_scene])
  show ?thesis
    using free_frame_when_colliding [OF c, of "1 / 10" Free]
    by (simp add: free_world_simps flight_modes_simps camera0_def)
qed

subsection \<open>Auto flight: the pan phase\<close>

lemma lit_0_05_value: "lit_0_05 = 3602879701896397 / 72057594037927936"
  by code_simp

lemma fl_add_steps:
  "fl_add (0) (3602879701896397 / 72057594037927936) = 3602879701896397 / 72057594037927936"
  "fl_add (3602879701896397 / 72057594037927936) (3602879701896397 / 72057594037927936) = 3602879701896397 / 36028797018963968"
  "fl_add (3602879701896397 / 36028797018963968) (3602879701896397 / 72057594037927936) = 1351079888211149 / 9007199254740992"
  "fl_add (1351079888211149 / 9007199254740992) (3602879701896397 / 72057594037927936) = 3602879701896397 / 18014398509481984"
  "fl_add (3602879701896397 / 18014398509481984) (3602879701896397 / 72057594037927936) = 1 / 4"
  "fl_add (1 / 4) (3602879701896397 / 72057594037927936) = 5404319552844595 / 18014398509481984"
  "fl_add (5404319552844595 / 18014398509481984) (3602879701896397 / 72057594037927936) = 3152519739159347 / 9007199254740992"
  "fl_add (3152519739159347 / 9007199254740992) (3602879701896397 / 72057594037927936) = 7205759403792793 / 18014398509481984"
  "fl_add (7205759403792793 / 18014398509481984) (3602879701896397 / 72057594037927936) = 2026619832316723 / 4503599627370496"
  "fl_add (2026619832316723 / 4503599627370496) (3602879701896397 / 72057594037927936) = 9007199254740991 / 18014398509481984"
  "fl_add (9007199254740991 / 18014398509481984) (3602879701896397 / 72057594037927936) = 4953959590107545 / 9007199254740992"
  "fl_add (4953959590107545 / 9007199254740992) (3602879701896397 / 72057594037927936) = 5404319552844595 / 9007199254740992"
  "fl_add (5404319552844595 / 9007199254740992) (3602879701896397 / 72057594037927936) = 5854679515581645 / 9007199254740992"
  "fl_add (5854679515581645 / 9007199254740992) (3602879701896397 / 72057594037927936) = 6305039478318695 / 9007199254740992"
  "fl_add (6305039478318695 / 9007199254740992) (3602879701896397 / 72057594037927936) = 6755399441055745 / 9007199254740992"
  "fl_add (6755399441055745 / 9007199254740992) (3602879701896397 / 72057594037927936) = 7205759403792795 / 9007199254740992"
  "fl_add (7205759403792795 / 9007199254740992) (3602879701896397 / 72057594037927936) = 7656119366529845 / 9007199254740992"
  "fl_add (7656119366529845 / 9007199254740992) (3602879701896397 / 72057594037927936) = 8106479329266895 / 9007199254740992"
  "fl_add (8106479329266895 / 9007199254740992) (3602879701896397 / 72057594037927936) = 8556839292003945 / 9007199254740992"
  "fl_add (8556839292003945 / 9007199254740992) (3602879701896397 / 72057594037927936) = 4503599627370497 / 4503599627370496"
  by code_simp+

lemma fl_add_one: "fl_add 1 (3602879701896397 / 72057594037927936) = 4728779608739021 / 4503599627370496"
  by code_simp

lemma pan_seq_20: "pan_seq 20 = 4503599627370497 / 4503599627370496"
  by (simp add: eval_nat_numeral lit_0_05_value fl_add_steps)

lemma pan_seq_le: "k < 20 \<Longrightarrow> pan_seq k \<le> 1"
  by (auto simp: eval_nat_numeral less_Suc_eq lit_0_05_value fl_add_steps)

lemma pan_keeps_refl [simp]: "pan_keeps w w"
  by (simp add: pan_keeps_def)

lemma pan_keeps_trans: "pan_keeps w2 w1 \<Longrightarrow> pan_keeps w1 w \<Longrightarrow> pan_keeps w2 w"
  by (simp add: pan_keeps_def)

lemma auto_update_ok:
  "flight_modes (currentMode w) = Some k \<Longrightarrow>
   auto_update delta w =
     (None, w\<lparr>trace := trace w @
        [MoveBodyChildren None,
         HudDistanceFromSun (vec_length (cam_position (the_camera w))),
         HudSpeed (speed (modes w k)), HudTime]\<rparr>)"
  by (simp add: auto_update_def hud_update_ok emit_def)

lemma panTo_frame_step:
  assumes "currentMode w = ''auto''" and "pan_t w \<le> 1"
  shows "panTo_animationFrame env body d w =
    (Inr Continue,
     w\<lparr>the_camera := (the_camera w)\<lparr>cam_quaternion :=
          slerp env (initialQuaternion w) (targetQuaternion w) (pan_t w)\<rparr>,
       trace := trace w @
         [MoveBodyChildren None,
          HudDistanceFromSun (vec_length (cam_position (the_camera w))),
          HudSpeed (speed (modes w Auto)), HudTime],
       pan_t := fl_add (pan_t w) lit_0_05\<rparr>)"
proof -
  let ?w2 = "w\<lparr>the_camera := (the_camera w)\<lparr>cam_quaternion :=
          slerp env (initialQuaternion w) (targetQuaternion w) (pan_t w)\<rparr>\<rparr>"
  have "flight_modes (currentMode ?w2) = Some Auto"
    using assms(1) by (simp add: flight_modes_simps)
  from auto_update_ok [OF this, of d] show ?thesis
    using assms(2) by (simp add: panTo_animationFrame_def)
qed

lemma panTo_frame_snap:
  assumes "currentMode w = ''auto''" and "1 < pan_t w" and "pan_t w < fl_add 1 lit_0_05"
  shows "panTo_animationFrame env body d w =
    (Inr Continue,
     w\<lparr>the_camera := (the_camera w)\<lparr>cam_quaternion :=
          slerp env (initialQuaternion w) (targetQuaternion w) 1\<rparr>,
       trace := trace w @
         [MoveBodyChildren None,
          HudDistanceFromSun (vec_length (cam_position (the_camera w))),
          HudSpeed (speed (modes w Auto)), HudTime],
       pan_t := fl_add 1 lit_0_05\<rparr>)"
proof -
  let ?w2 = "w\<lparr>pan_t := 1, the_camera := (the_camera w)\<lparr>cam_quaternion :=
          slerp env (initialQuaternion w) (targetQuaternion w) 1\<rparr>\<rparr>"
  have "flight_modes (currentMode ?w2) = Some Auto"
    using assms(1) by (simp add: flight_modes_simps)
  from auto_update_ok [OF this, of d] show ?thesis
    using assms(2,3) by (simp add: panTo_animationFrame_def)
qed

lemma panTo_frame_end:
  assumes "1 < pan_t w" and "\<not> pan_t w < fl_add 1 lit_0_05"
  shows "panTo_animationFrame env body d w = (Inr Continue, translateTo body w)"
  using assms by (simp add: panTo_animationFrame_def)

lemma callback_panning:
  "panning body q0 q1 t w \<Longrightarrow>
   animate_callback env Auto d w = panTo_animationFrame env body d w"
  by (simp add: panning_def animate_callback_def mode_animationFrame_def)

lemma pan_tick:
  assumes "panning body q0 q1 t w" and "t \<le> 1"
  shows "\<exists>w'. animate_callback env Auto d w = (Inr Continue, w')
    \<and> panning body q0 q1 (fl_add t lit_0_05) w'
    \<and> cam_quaternion (the_camera w') = slerp env q0 q1 t
    \<and> pan_keeps w' w"
  using assms
  by (simp add: callback_panning [OF assms(1)] panTo_frame_step panning_def pan_keeps_def)

lemma pan_tick_snap:
  assumes "panning body q0 q1 t w" and "1 < t" and "t < fl_add 1 lit_0_05"
  shows "\<exists>w'. animate_callback env Auto d w = (Inr Continue, w')
    \<and> panning body q0 q1 (fl_add 1 lit_0_05) w'
    \<and> cam_quaternion (the_camera w') = slerp env q0 q1 1
    \<and> pan_keeps w' w"
  using assms
  by (simp add: callback_panning [OF assms(1)] panTo_frame_snap panning_def pan_keeps_def)

lemma pan_tick_end:
  assumes "panning body q0 q1 t w" and "1 < t" and "\<not> t < fl_add 1 lit_0_05"
  shows "animate_callback env Auto d w = (Inr Continue, translateTo body w)"
  using assms
  by (simp add: callback_panning [OF assms(1)] panTo_frame_end panning_def)

lemma animate_loop_append:
  "animate_loop env k (ds1 @ ds2) w =
     (case animate_loop env k ds1 w of
        (Inr Continue, w1) \<Rightarrow> animate_loop env k ds2 w1
      | (Inr Stop, w1) \<Rightarrow> (Inr Stop, w1)
      | (Inl e, w1) \<Rightarrow> (Inl e, w1))"
  by (induction ds1 arbitrary: w) (auto split: prod.splits sum.splits signal.splits)

lemma pan_run:
  "panning body q0 q1 (pan_seq m) w \<Longrightarrow> (\<forall>k < length ds. pan_seq (m + k) \<le> 1) \<Longrightarrow>
   \<exists>w'. animate_loop env Auto ds w = (Inr Continue, w')
     \<and> panning body q0 q1 (pan_seq (m + length ds)) w'
     \<and> pan_keeps w' w"
proof (induction ds arbitrary: w m)
  case Nil
  then show ?case by simp
next
  case (Cons d ds)
  from Cons.prems(2) have "pan_seq m \<le> 1" by force
  from pan_tick [OF Cons.prems(1) this, of env d]
  obtain w1 where w1: "animate_callback env Auto d w = (Inr Continue, w1)"
    "panning body q0 q1 (pan_seq (Suc m)) w1" "pan_keeps w1 w"
    by auto
  from Cons.prems(2) have "\<forall>k < length ds. pan_seq (Suc m + k) \<le> 1" by force
  from Cons.IH [OF w1(2) this]
  obtain w' where w': "animate_loop env Auto ds w1 = (Inr Continue, w')"
    "panning body q0 q1 (pan_seq (Suc m + length ds)) w'" "pan_keeps w' w1"
    by auto
  show ?case
    using w1 w' by (auto intro: pan_keeps_trans)
qed

lemma flyTo_panning:
  assumes "mesh body = Some m" and "currentMode w0 = ''auto''" and "enabled (modes w0 Auto)"
  shows "fst (auto_flyTo env body w0) = None"
    and "panning body (cam_quaternion (the_camera w0))
           (lookAt_quaternion env (cam_position (the_camera w0)) (obj_position m)
              (cam_up (the_camera w0)))
           0 (snd (auto_flyTo env body w0))"
    and "pan_keeps (snd (auto_flyTo env body w0)) w0"
  using assms by (simp_all add: auto_flyTo_def panTo_def panning_def pan_keeps_def)

lemma pan_seq_20_snaps: "1 < pan_seq 20" "pan_seq 20 < fl_add 1 lit_0_05"
  by (simp_all add: pan_seq_20 lit_0_05_value fl_add_one)

lemma fl_add_one_ends: "1 < fl_add 1 lit_0_05" "\<not> fl_add 1 lit_0_05 < fl_add 1 lit_0_05"
  by (simp_all add: lit_0_05_value fl_add_one)



lemma pan_phase:
  assumes start: "panning body q0 q1 0 w" and len: "length deltas = 20"
  shows "\<exists>w20 w21. animate_loop env Auto deltas w = (Inr Continue, w20)
     \<and> panning body q0 q1 (pan_seq 20) w20
     \<and> pan_keeps w20 w
     \<and> animate_callback env Auto d w20 = (Inr Continue, w21)
     \<and> panning body q0 q1 (fl_add 1 lit_0_05) w21
     \<and> pan_keeps w21 w
     \<and> cam_quaternion (the_camera w21) = slerp env q0 q1 1
     \<and> animate_callback env Auto d' w21 = (Inr Continue, translateTo body w21)"
proof -
  from start have s0: "panning body q0 q1 (pan_seq 0) w" by simp
  have le: "\<forall>k < length deltas. pan_seq (0 + k) \<le> 1"
    using len by (simp add: pan_seq_le)
  from pan_run [OF s0 le, of env] len
  obtain w20 where w20: "animate_loop env Auto deltas w = (Inr Continue, w20)"
    "panning body q0 q1 (pan_seq 20) w20" "pan_keeps w20 w"
    by auto
  from pan_tick_snap [OF w20(2) pan_seq_20_snaps, of env d]
  obtain w21 where w21: "animate_callback env Auto d w20 = (Inr Continue, w21)"
    "panning body q0 q1 (fl_add 1 lit_0_05) w21"
    "cam_quaternion (the_camera w21) = slerp env q0 q1 1" "pan_keeps w21 w20"
    by auto
  have fin: "animate_callback env Auto d' w21 = (Inr Continue, translateTo body w21)"
    by (rule pan_tick_end [OF w21(2) fl_add_one_ends])
  from w20 w21 fin pan_keeps_trans [OF w21(4) w20(3)] show ?thesis by blast
qed


lemma auto_world_scene: "same_scene auto_world world1"
  unfolding auto_world_def by (rule same_scene_setMode)

lemma auto_world_simps:
  "currentMode auto_world = ''auto''"
  "enabled (modes auto_world Auto)"
  "the_camera auto_world = camera0"
  "bodies auto_world = [far_body, near_body]"
  "config_controls_z_speed auto_world = 1"
proof -
  show "currentMode auto_world = ''auto''" "enabled (modes auto_world Auto)"
    by (simp_all add: auto_world_def setMode_currentMode setMode_enabled flight_modes_simps
        world1_simps)
  have "config_controls_z_speed world1 = 1"
    by (simp add: world1_def flight_init_def)
  then show "the_camera auto_world = camera0" "bodies auto_world = [far_body, near_body]"
    "config_controls_z_speed auto_world = 1"
    using auto_world_scene by (simp_all add: same_scene_def world1_simps)
qed

lemma target_body_simps:
  "mesh target_body = Some (object3Ds_main near_body)"
  "object3Ds_main target_body = object3Ds_main near_body"
  "getCollisionDistance target_body = 2"
  by (simp_all add: target_body_def getCollisionDistance_def getSurfaceCollisionDistance_def
      getScaledRadius_def near_body_def Body_new_def Let_def no_options_def kmPerAu0_def)



lemma target_body_constructed:
  "target_body =
     (Body_new kmPerAu0
        (no_options\<lparr>opt_name := Some ''Near'', opt_radiusInKm := Some 149597871,
                    opt_mesh := Some \<lparr>obj_name = ''Near'', obj_position = (0, 0, - 3),
                                       obj_scale_x = 1\<rparr>\<rparr>))
     \<lparr>object3Ds_main := \<lparr>obj_name = ''Near'', obj_position = (0, 0, - 3), obj_scale_x = 1\<rparr>\<rparr>"
  by (simp add: target_body_def near_body_def Body_new_def Let_def no_options_def)





subsection \<open>Auto flight: the translate phase\<close>

lemma setMode_ok: "flight_modes name = Some k \<Longrightarrow> fst (flight_setMode name w) = None"
  by (simp add: flight_setMode_def Let_def)

lemma free_activations_emit:
  "free_activations (emit e w) = free_activations w + (if e = EnableCalled Free then 1 else 0)"
  by (simp add: free_activations_def)

lemma free_activations_mode_disable [simp]:
  "free_activations (mode_disable k w) = free_activations w"
  by (cases k) (simp_all add: free_activations_def)

lemma free_activations_mode_enable [simp]:
  "k \<noteq> Free \<Longrightarrow> free_activations (mode_enable k w) = free_activations w"
  by (cases k) (simp_all add: free_activations_def)

lemma free_activations_currentMode [simp]:
  "free_activations (w\<lparr>currentMode := n\<rparr>) = free_activations w"
  by (simp add: free_activations_def)

lemma free_activations_setMode:
  "flight_modes name \<noteq> Some Free \<Longrightarrow>
   free_activations (snd (flight_setMode name w)) = free_activations w"
  by (auto simp: flight_setMode_def Let_def free_activations_emit split: option.splits)

lemma enabled_modes_cong:
  "(\<And>k. enabled (modes w' k) = enabled (modes w k)) \<Longrightarrow> enabled_modes w' = enabled_modes w"
  by (simp add: enabled_modes_def)

lemma set_speed_simps [simp]:
  "enabled (modes (set_speed k s w) j) = enabled (modes w j)"
  "speed (modes (set_speed k s w) j) = (if j = k then s else speed (modes w j))"
  "currentMode (set_speed k s w) = currentMode w"
  "trace (set_speed k s w) = trace w"
  "the_camera (set_speed k s w) = the_camera w"
  "auto_animationFrame (set_speed k s w) = auto_animationFrame w"
  "bodies (set_speed k s w) = bodies w"
  "config_controls_z_speed (set_speed k s w) = config_controls_z_speed w"
  by (simp_all add: set_speed_def)

lemma translate_frame_colliding:
  "isColliding body (the_camera w) \<Longrightarrow>
   translateTo_animationFrame env body d w = (Inr Stop, snd (flight_setMode ''menu'' w))"
  using setMode_ok [of "''menu''" Menu w]
  by (cases "flight_setMode ''menu'' w")
    (simp add: translateTo_animationFrame_def flight_modes_simps)

lemma translate_frame_moving:
  assumes "\<not> isColliding body (the_camera w)" and "currentMode w = ''auto''"
    and "tz = js_mul (js_mul (Num (config_controls_z_speed w)) (Num d))
                (flight_getTranslationSpeedMultiplier (Some [body]) w)"
  shows "translateTo_animationFrame env body d w =
    (Inr Continue,
     (set_speed Auto (js_div tz (Num d)) w)
       \<lparr>the_camera := translateZ env (js_neg tz) (the_camera w),
        trace := trace w @
          [MoveBodyChildren None,
           HudDistanceFromSun
             (vec_length (cam_position (translateZ env (js_neg tz) (the_camera w)))),
           HudSpeed (js_div tz (Num d)), HudTime]\<rparr>)"
proof -
  let ?w2 = "(set_speed Auto (js_div tz (Num d)) w)
       \<lparr>the_camera := translateZ env (js_neg tz) (the_camera w)\<rparr>"
  have "flight_modes (currentMode ?w2) = Some Auto"
    using assms(2) by (simp add: flight_modes_simps)
  from auto_update_ok [OF this, of d]
  have upd: "auto_update d ?w2 =
    (None, ?w2\<lparr>trace := trace w @
          [MoveBodyChildren None,
           HudDistanceFromSun
             (vec_length (cam_position (translateZ env (js_neg tz) (the_camera w)))),
           HudSpeed (js_div tz (Num d)), HudTime]\<rparr>)"
    by simp
  have "translateTo_animationFrame env body d w =
      (case auto_update d ?w2 of (Some e, w3) \<Rightarrow> (Inl e, w3) | (None, w3) \<Rightarrow> (Inr Continue, w3))"
    unfolding translateTo_animationFrame_def Let_def assms(3) using assms(1) by simp
  then show ?thesis
    unfolding upd by simp
qed

lemma menu_after_auto:
  assumes "auto_flying w"
  shows "currentMode (snd (flight_setMode ''menu'' w)) = ''menu''"
    and "enabled_modes (snd (flight_setMode ''menu'' w)) = [Menu]"
    and "free_activations (snd (flight_setMode ''menu'' w)) = free_activations w"
proof -
  from assms have cur: "currentMode w = ''auto''" and en: "enabled_modes w = [Auto]"
    by (simp_all add: auto_flying_def)
  show "currentMode (snd (flight_setMode ''menu'' w)) = ''menu''"
    by (simp add: setMode_currentMode flight_modes_simps)
  show "enabled_modes (snd (flight_setMode ''menu'' w)) = [Menu]"
    by (simp add: enabled_modes_def setMode_enabled cur flight_modes_simps
        enabled_modes_single [OF en])
  show "free_activations (snd (flight_setMode ''menu'' w)) = free_activations w"
    by (rule free_activations_setMode) (simp add: flight_modes_simps)
qed

lemma auto_flying_enabled: "auto_flying w \<Longrightarrow> enabled (modes w k) \<longleftrightarrow> k = Auto"
  by (simp add: auto_flying_def enabled_modes_single)

lemma auto_flying_keep:
  assumes "auto_flying w" and "currentMode w' = currentMode w"
    and "\<And>k. enabled (modes w' k) = enabled (modes w k)"
  shows "auto_flying w'"
proof -
  have "enabled_modes w' = enabled_modes w"
    by (rule enabled_modes_cong) (rule assms(3))
  with assms(1,2) show ?thesis
    by (simp add: auto_flying_def)
qed

lemma auto_goes_on:
  assumes "auto_flying w"
    and "currentMode w' = currentMode w"
    and "\<And>k. enabled (modes w' k) = enabled (modes w k)"
    and "\<exists>es. trace w' = trace w @ es \<and> EnableCalled Free \<notin> set es"
  shows "auto_flying w' \<and> free_activations w' = free_activations w"
proof
  show "auto_flying w'"
    by (rule auto_flying_keep [OF assms(1,2,3)])
  from assms(4) obtain es where "trace w' = trace w @ es" "EnableCalled Free \<notin> set es"
    by blast
  then show "free_activations w' = free_activations w"
    by (simp add: free_activations_def)
qed

lemma goes_on_result:
  "r = (Inr Continue, w') \<Longrightarrow> auto_flying w' \<and> free_activations w' = free_activations w \<Longrightarrow>
   \<exists>w'. r = (Inr Continue, w') \<and> auto_flying w' \<and> free_activations w' = free_activations w"
  by blast

lemma pan_frame_goes_on:
  assumes "auto_flying w"
  shows "\<exists>w'. panTo_animationFrame env body d w = (Inr Continue, w') \<and> auto_flying w'
            \<and> free_activations w' = free_activations w"
proof -
  from assms have cur: "currentMode w = ''auto''"
    by (simp add: auto_flying_def)
  consider (step) "pan_t w \<le> 1"
    | (snap) "1 < pan_t w" "pan_t w < fl_add 1 lit_0_05"
    | (fin) "1 < pan_t w" "\<not> pan_t w < fl_add 1 lit_0_05"
    by linarith
  then show ?thesis
  proof cases
    case step
    show ?thesis
      by (rule goes_on_result [OF panTo_frame_step [OF cur step]])
        (rule auto_goes_on [OF assms], simp_all)
  next
    case snap
    show ?thesis
      by (rule goes_on_result [OF panTo_frame_snap [OF cur snap]])
        (rule auto_goes_on [OF assms], simp_all)
  next
    case fin
    show ?thesis
      by (rule goes_on_result [OF panTo_frame_end [OF fin]])
        (rule auto_goes_on [OF assms], simp_all add: translateTo_def)
  qed
qed

lemma translate_frame_goes_on:
  assumes "auto_flying w" and "\<not> isColliding body (the_camera w)"
  shows "\<exists>w'. translateTo_animationFrame env body d w = (Inr Continue, w') \<and> auto_flying w'
            \<and> free_activations w' = free_activations w"
proof -
  from assms have cur: "currentMode w = ''auto''"
    by (simp add: auto_flying_def)
  show ?thesis
    by (rule goes_on_result [OF translate_frame_moving [OF assms(2) cur refl]])
      (rule auto_goes_on [OF assms(1)], simp_all)
qed

text \<open>One frame of auto flight: it goes on, or it stops in menu mode.\<close>

lemma auto_frame_cases:
  assumes "auto_flying w"
  shows "(\<exists>w'. animate_callback env Auto d w = (Inr Continue, w') \<and> auto_flying w'
            \<and> free_activations w' = free_activations w)
       \<or> (\<exists>w'. animate_callback env Auto d w = (Inr Stop, w') \<and> currentMode w' = ''menu''
            \<and> enabled_modes w' = [Menu] \<and> free_activations w' = free_activations w)"
proof -
  have cb: "animate_callback env Auto d w = mode_animationFrame env Auto d w"
    by (simp add: animate_callback_def auto_flying_enabled [OF assms])
  show ?thesis
  proof (cases "auto_animationFrame w")
    case FramePrototype
    then show ?thesis using assms by (simp add: cb mode_animationFrame_def)
  next
    case (FramePanTo body)
    then have fr: "animate_callback env Auto d w = panTo_animationFrame env body d w"
      by (simp add: cb mode_animationFrame_def)
    show ?thesis
      unfolding fr by (rule disjI1) (rule pan_frame_goes_on [OF assms])
  next
    case (FrameTranslateTo body)
    then have fr: "animate_callback env Auto d w = translateTo_animationFrame env body d w"
      by (simp add: cb mode_animationFrame_def)
    show ?thesis
    proof (cases "isColliding body (the_camera w)")
      case True
      show ?thesis
        unfolding fr translate_frame_colliding [OF True]
        using menu_after_auto [OF assms] by simp
    next
      case False
      show ?thesis
        unfolding fr by (rule disjI1) (rule translate_frame_goes_on [OF assms False])
    qed
  qed
qed

lemma auto_loop:
  "auto_flying w \<Longrightarrow>
   (\<exists>w'. animate_loop env Auto ds w = (Inr Continue, w') \<and> auto_flying w'
            \<and> free_activations w' = free_activations w)
   \<or> (\<exists>w'. animate_loop env Auto ds w = (Inr Stop, w') \<and> currentMode w' = ''menu''
            \<and> enabled_modes w' = [Menu] \<and> free_activations w' = free_activations w)"
proof (induction ds arbitrary: w)
  case Nil
  then show ?case by simp
next
  case (Cons d ds)
  from auto_frame_cases [OF Cons.prems, of env d]
  consider (go) w1 where "animate_callback env Auto d w = (Inr Continue, w1)" "auto_flying w1"
      "free_activations w1 = free_activations w"
    | (stop) w1 where "animate_callback env Auto d w = (Inr Stop, w1)" "currentMode w1 = ''menu''"
      "enabled_modes w1 = [Menu]" "free_activations w1 = free_activations w"
    by blast
  then show ?case
  proof cases
    case go
    have step: "animate_loop env Auto (d # ds) w = animate_loop env Auto ds w1"
      by (simp add: go(1))
    from Cons.IH [OF go(2)] show ?thesis
      unfolding step go(3) .
  next
    case stop
    have "animate_loop env Auto (d # ds) w = (Inr Stop, w1)"
      by (simp add: stop(1))
    with stop(2-4) show ?thesis by blast
  qed
qed

lemma flyTo_keeps:
  "currentMode (snd (auto_flyTo env body w)) = currentMode w"
  "modes (snd (auto_flyTo env body w)) = modes w"
  "trace (snd (auto_flyTo env body w)) = trace w @ [NoticeSet (body_name body)]"
  by (simp_all add: auto_flyTo_def panTo_def Let_def emit_def split: option.splits)

lemma auto_flying_start:
  assumes "current_only w0" and "currentMode w0 \<noteq> ''auto''"
  shows "auto_flying (snd (auto_flyTo env body (snd (flight_setMode ''auto'' w0))))"
    and "free_activations (snd (auto_flyTo env body (snd (flight_setMode ''auto'' w0)))) =
           free_activations w0"
proof -
  let ?w1 = "snd (flight_setMode ''auto'' w0)"
  have en: "enabled (modes ?w1 k) \<longleftrightarrow> k = Auto" for k
    using assms by (auto simp: setMode_enabled flight_modes_simps current_only_def)
  have "enabled_modes ?w1 = [Auto]"
    by (simp add: enabled_modes_def en)
  then have "enabled_modes (snd (auto_flyTo env body ?w1)) = [Auto]"
    by (simp add: enabled_modes_def flyTo_keeps)
  then show "auto_flying (snd (auto_flyTo env body ?w1))"
    by (simp add: auto_flying_def flyTo_keeps setMode_currentMode flight_modes_simps)
  have "free_activations ?w1 = free_activations w0"
    by (rule free_activations_setMode) (simp add: flight_modes_simps)
  then show "free_activations (snd (auto_flyTo env body ?w1)) = free_activations w0"
    by (simp add: free_activations_def flyTo_keeps)
qed

text \<open>
  Claim C4. A frame of the translate phase, in auto mode: when the camera is within the
  collision distance of the target, the mode becomes \<^verbatim>\<open>menu\<close> and the frame returns \<^verbatim>\<open>false\<close>.
  Otherwise the camera is moved along its local z axis by minus
  \<^verbatim>\<open>controls-z-speed * delta * getTranslationSpeedMultiplier([body])\<close>, that product divided by
  \<^verbatim>\<open>delta\<close> is recorded as the speed of the auto mode, and \<^verbatim>\<open>update\<close> moves the children of
  the bodies and refreshes the HUD. And from any state between calls in which auto is not the
  current mode, \<^verbatim>\<open>setMode('auto')\<close>, \<^verbatim>\<open>flyTo(body)\<close> and any number of frames never call
  \<^verbatim>\<open>enable()\<close> of the free mode and never leave it enabled; no frame throws, and when the
  loop stops, the current and only enabled mode is \<^verbatim>\<open>menu\<close>.
\<close>

theorem translate_phase_and_flyTo_never_enable_free:
  assumes "currentMode w = ''auto''"
  shows "(isColliding body (the_camera w) \<longrightarrow>
        translateTo_animationFrame env body delta w = (Inr Stop, snd (flight_setMode ''menu'' w))
        \<and> currentMode (snd (flight_setMode ''menu'' w)) = ''menu''
        \<and> enabled (modes (snd (flight_setMode ''menu'' w)) Menu)
        \<and> \<not> enabled (modes (snd (flight_setMode ''menu'' w)) Auto))
    \<and> (\<not> isColliding body (the_camera w) \<longrightarrow>
        (let translationZ =
               js_mul (js_mul (Num (config_controls_z_speed w)) (Num delta))
                      (flight_getTranslationSpeedMultiplier (Some [body]) w);
             w' = snd (translateTo_animationFrame env body delta w)
         in fst (translateTo_animationFrame env body delta w) = Inr Continue
            \<and> the_camera w' = translateZ env (js_neg translationZ) (the_camera w)
            \<and> speed (modes w' Auto) = js_div translationZ (Num delta)
            \<and> trace w' = trace w @
                 [MoveBodyChildren None,
                  HudDistanceFromSun (vec_length (cam_position (the_camera w'))),
                  HudSpeed (js_div translationZ (Num delta)), HudTime]
            \<and> currentMode w' = ''auto''
            \<and> enabled_modes w' = enabled_modes w))
    \<and> (current_only w0 \<and> currentMode w0 \<noteq> ''auto'' \<longrightarrow>
        (let r = animate_loop env Auto deltas
                   (snd (auto_flyTo env body (snd (flight_setMode ''auto'' w0))))
         in (fst r = Inr Continue \<or> fst r = Inr Stop)
            \<and> \<not> enabled (modes (snd r) Free)
            \<and> count_list (trace (snd r)) (EnableCalled Free) =
                count_list (trace w0) (EnableCalled Free)
            \<and> (fst r = Inr Stop \<longrightarrow> currentMode (snd r) = ''menu'' \<and> enabled_modes (snd r) = [Menu])))"
proof (intro conjI impI)
  assume c: "isColliding body (the_camera w)"
  show "translateTo_animationFrame env body delta w = (Inr Stop, snd (flight_setMode ''menu'' w))"
    by (rule translate_frame_colliding [OF c])
  show "currentMode (snd (flight_setMode ''menu'' w)) = ''menu''"
    by (simp add: setMode_currentMode flight_modes_simps)
  show "enabled (modes (snd (flight_setMode ''menu'' w)) Menu)"
    using assms by (simp add: setMode_enabled flight_modes_simps)
  show "\<not> enabled (modes (snd (flight_setMode ''menu'' w)) Auto)"
    using assms by (simp add: setMode_enabled flight_modes_simps)
next
  assume nc: "\<not> isColliding body (the_camera w)"
  show "let translationZ =
               js_mul (js_mul (Num (config_controls_z_speed w)) (Num delta))
                      (flight_getTranslationSpeedMultiplier (Some [body]) w);
             w' = snd (translateTo_animationFrame env body delta w)
         in fst (translateTo_animationFrame env body delta w) = Inr Continue
            \<and> the_camera w' = translateZ env (js_neg translationZ) (the_camera w)
            \<and> speed (modes w' Auto) = js_div translationZ (Num delta)
            \<and> trace w' = trace w @
                 [MoveBodyChildren None,
                  HudDistanceFromSun (vec_length (cam_position (the_camera w'))),
                  HudSpeed (js_div translationZ (Num delta)), HudTime]
            \<and> currentMode w' = ''auto''
            \<and> enabled_modes w' = enabled_modes w"
    unfolding Let_def translate_frame_moving [OF nc assms refl]
    using assms by (simp add: enabled_modes_def)
next
  assume a: "current_only w0 \<and> currentMode w0 \<noteq> ''auto''"
  let ?w2 = "snd (auto_flyTo env body (snd (flight_setMode ''auto'' w0)))"
  from a have fly: "auto_flying ?w2" and fa: "free_activations ?w2 = free_activations w0"
    by (simp_all add: auto_flying_start)
  from auto_loop [OF fly, of env deltas]
  consider (go) w' where "animate_loop env Auto deltas ?w2 = (Inr Continue, w')" "auto_flying w'"
      "free_activations w' = free_activations ?w2"
    | (stop) w' where "animate_loop env Auto deltas ?w2 = (Inr Stop, w')" "currentMode w' = ''menu''"
      "enabled_modes w' = [Menu]" "free_activations w' = free_activations ?w2"
    by blast
  then show "let r = animate_loop env Auto deltas ?w2
         in (fst r = Inr Continue \<or> fst r = Inr Stop)
            \<and> \<not> enabled (modes (snd r) Free)
            \<and> count_list (trace (snd r)) (EnableCalled Free) =
                count_list (trace w0) (EnableCalled Free)
            \<and> (fst r = Inr Stop \<longrightarrow> currentMode (snd r) = ''menu'' \<and> enabled_modes (snd r) = [Menu])"
  proof cases
    case go
    from go(2) have "\<not> enabled (modes w' Free)"
      by (simp add: auto_flying_enabled)
    with go(1,3) fa show ?thesis
      by (simp add: free_activations_def)
  next
    case stop
    from stop(3) have "\<not> enabled (modes w' Free)"
      by (simp add: enabled_modes_single)
    with stop fa show ?thesis
      by (simp add: free_activations_def)
  qed
qed

lemma env0_translateZ:
  "cam_position cam = (px, py, pz) \<Longrightarrow>
   cam_position (translateZ (env0 r) (Num dz) cam) = (px, py, pz + dz)"
  by (simp add: env0_def)

lemma target_distance:
  "cam_position cam = (0, 0, z) \<Longrightarrow> getDistance target_body cam = \<bar>- 3 - z\<bar>"
  by (simp add: getDistance_def Object3D_getDistance_def target_body_simps near_body_simps)

lemma target_colliding:
  "cam_position cam = (0, 0, z) \<Longrightarrow> isColliding target_body cam \<longleftrightarrow> \<bar>- 3 - z\<bar> < 2"
  by (simp add: isColliding_def target_distance target_body_simps)

lemma target_multiplier:
  "cam_position (the_camera w) = (0, 0, z) \<Longrightarrow>
   flight_getTranslationSpeedMultiplier (Some [target_body]) w = Num \<bar>- 3 - z\<bar>"
  by (simp add: flight_getTranslationSpeedMultiplier_def getClosestDistance_def target_distance)

lemma approaching_callback:
  "approaching z w \<Longrightarrow>
   animate_callback env Auto d w = translateTo_animationFrame env target_body d w"
  by (simp add: approaching_def animate_callback_def mode_animationFrame_def)

lemma approach_tick:
  assumes "approaching z w" and "\<not> \<bar>- 3 - z\<bar> < 2"
  shows "\<exists>w'. animate_callback (env0 r) Auto d w = (Inr Continue, w')
    \<and> approaching (z - d * \<bar>- 3 - z\<bar>) w'"
proof -
  from assms(1) have pos: "cam_position (the_camera w) = (0, 0, z)"
    and cur: "currentMode w = ''auto''" and zs: "config_controls_z_speed w = 1"
    by (simp_all add: approaching_def)
  from assms(2) have nc: "\<not> isColliding target_body (the_camera w)"
    by (simp add: target_colliding [OF pos])
  have tz: "js_mul (js_mul (Num (config_controls_z_speed w)) (Num d))
              (flight_getTranslationSpeedMultiplier (Some [target_body]) w) = Num (d * \<bar>- 3 - z\<bar>)"
    by (simp add: zs target_multiplier [OF pos])
  show ?thesis
    unfolding approaching_callback [OF assms(1)] translate_frame_moving [OF nc cur refl] tz
    using assms(1) by (simp add: approaching_def env0_translateZ [OF pos])
qed

lemma approach_stop:
  assumes "approaching z w" and "\<bar>- 3 - z\<bar> < 2"
  shows "animate_callback (env0 r) Auto d w = (Inr Stop, snd (flight_setMode ''menu'' w))"
proof -
  from assms(1) have pos: "cam_position (the_camera w) = (0, 0, z)"
    by (simp add: approaching_def)
  from assms(2) have c: "isColliding target_body (the_camera w)"
    by (simp add: target_colliding [OF pos])
  show ?thesis
    unfolding approaching_callback [OF assms(1)] by (rule translate_frame_colliding [OF c])
qed

lemma pan_keeps_auto_world:
  "pan_keeps w auto_world \<Longrightarrow>
   cam_position (the_camera w) = (0, 0, 0) \<and> config_controls_z_speed w = 1"
  by (simp add: pan_keeps_def auto_world_simps camera0_def)

text \<open>A whole flight to the target: 22 frames of panning, two of translating, and the stop.\<close>

lemma whole_flight:
  "fst (animate_loop (env0 1) Auto
          (replicate 20 (1 / 20) @ [1 / 20, 1 / 20, 1 / 3, 1 / 2, 1 / 2])
          (snd (auto_flyTo (env0 1) target_body auto_world))) = Inr Stop"
proof -
  let ?w2 = "snd (auto_flyTo (env0 1) target_body auto_world)"
  note fly = flyTo_panning [OF target_body_simps(1) auto_world_simps(1,2), of "env0 1"]
  have len: "length (replicate 20 (1 / 20 :: real)) = 20"
    by simp
  from pan_phase [OF fly(2) len, of "env0 1" "1 / 20" "1 / 20"]
  obtain w20 w21 where run: "animate_loop (env0 1) Auto (replicate 20 (1 / 20)) ?w2 = (Inr Continue, w20)"
    "animate_callback (env0 1) Auto (1 / 20) w20 = (Inr Continue, w21)"
    "panning target_body (cam_quaternion (the_camera auto_world))
       (lookAt_quaternion (env0 1) (cam_position (the_camera auto_world))
          (obj_position (object3Ds_main near_body)) (cam_up (the_camera auto_world)))
       (fl_add 1 lit_0_05) w21"
    "pan_keeps w21 ?w2"
    "animate_callback (env0 1) Auto (1 / 20) w21 = (Inr Continue, translateTo target_body w21)"
    by blast
  from pan_keeps_auto_world [OF pan_keeps_trans [OF run(4) fly(3)]] run(3)
  have a0: "approaching 0 (translateTo target_body w21)"
    by (simp add: approaching_def translateTo_def panning_def)
  from approach_tick [OF a0, of 1 "1 / 3"]
  obtain w23 where w23: "animate_callback (env0 1) Auto (1 / 3) (translateTo target_body w21)
      = (Inr Continue, w23)" "approaching (- 1) w23"
    by auto
  from approach_tick [OF w23(2), of 1 "1 / 2"]
  obtain w24 where w24: "animate_callback (env0 1) Auto (1 / 2) w23 = (Inr Continue, w24)"
    "approaching (- 2) w24"
    by auto
  have stop: "animate_callback (env0 1) Auto (1 / 2) w24 = (Inr Stop, snd (flight_setMode ''menu'' w24))"
    by (rule approach_stop [OF w24(2)]) simp
  show ?thesis
    by (simp add: animate_loop_append run(1,2,5) w23(1) w24(1) stop)
qed

lemma translate_world_simps:
  "currentMode translate_world = ''auto''"
  "the_camera translate_world = camera0"
  "config_controls_z_speed translate_world = 1"
  "currentMode close_world = ''auto''"
  "cam_position (the_camera close_world) = (0, 0, - 2)"
  by (simp_all add: translate_world_def close_world_def translateTo_def auto_world_simps)

theorem translate_phase_and_flyTo_never_enable_free_witness:
  "cam_position (the_camera (snd (translateTo_animationFrame (env0 1) target_body (1 / 3)
      translate_world))) = (0, 0, - 1)
   \<and> speed (modes (snd (translateTo_animationFrame (env0 1) target_body (1 / 3)
        translate_world)) Auto) = Num 3
   \<and> translateTo_animationFrame (env0 1) target_body (1 / 2) close_world =
       (Inr Stop, snd (flight_setMode ''menu'' close_world))
   \<and> currentMode (snd (flight_setMode ''menu'' close_world)) = ''menu''
   \<and> (let r = animate_loop (env0 1) Auto
                 (replicate 20 (1 / 20) @ [1 / 20, 1 / 20, 1 / 3, 1 / 2, 1 / 2])
                 (snd (auto_flyTo (env0 1) target_body (snd (flight_setMode ''auto'' world1))))
       in fst r = Inr Stop
          \<and> currentMode (snd r) = ''menu''
          \<and> enabled_modes (snd r) = [Menu]
          \<and> \<not> enabled (modes (snd r) Free)
          \<and> count_list (trace (snd r)) (EnableCalled Free) = 0)"
proof -
  have pos0: "cam_position (the_camera translate_world) = (0, 0, 0)"
    by (simp add: translate_world_simps camera0_def)
  have nc: "\<not> isColliding target_body (the_camera translate_world)"
    by (simp add: target_colliding [OF pos0])
  have c: "isColliding target_body (the_camera close_world)"
    by (simp add: target_colliding [OF translate_world_simps(5)])
  have w0: "current_only world1 \<and> currentMode world1 \<noteq> ''auto''"
    by (simp add: world1_def current_only_init init_simps)
  have tr0: "count_list (trace world1) (EnableCalled Free) = 0"
    by (simp add: world1_def init_simps)
  note whole = whole_flight [unfolded auto_world_def]
  from translate_phase_and_flyTo_never_enable_free [OF translate_world_simps(1),
      of target_body "env0 1" "1 / 3" world1
         "replicate 20 (1 / 20) @ [1 / 20, 1 / 20, 1 / 3, 1 / 2, 1 / 2]"]
    nc w0 whole tr0
  have first: "cam_position (the_camera (snd (translateTo_animationFrame (env0 1) target_body (1 / 3)
      translate_world))) = (0, 0, - 1)
   \<and> speed (modes (snd (translateTo_animationFrame (env0 1) target_body (1 / 3)
        translate_world)) Auto) = Num 3
   \<and> (let r = animate_loop (env0 1) Auto
                 (replicate 20 (1 / 20) @ [1 / 20, 1 / 20, 1 / 3, 1 / 2, 1 / 2])
                 (snd (auto_flyTo (env0 1) target_body (snd (flight_setMode ''auto'' world1))))
       in fst r = Inr Stop
          \<and> currentMode (snd r) = ''menu''
          \<and> enabled_modes (snd r) = [Menu]
          \<and> \<not> enabled (modes (snd r) Free)
          \<and> count_list (trace (snd r)) (EnableCalled Free) = 0)"
    by (simp add: Let_def translate_world_simps(3) target_multiplier [OF pos0]
        env0_translateZ [OF pos0])
  from translate_phase_and_flyTo_never_enable_free [OF translate_world_simps(4),
      of target_body "env0 1" "1 / 2" world1 "[]"] c
  have second: "translateTo_animationFrame (env0 1) target_body (1 / 2) close_world =
       (Inr Stop, snd (flight_setMode ''menu'' close_world))
   \<and> currentMode (snd (flight_setMode ''menu'' close_world)) = ''menu''"
    by blast
  from first second show ?thesis by blast
qed

end
